theory Spec2Isabelle
  imports Complex_Main "HOL-Library.Word" "HOL-Library.Signed_Division" "HOL-Library.Log_Nat"
begin

unbundle bit_operations_syntax

section \<open>The OCAD 8 codec of file\_format\_ocad8.cpp: definitions\<close>

text \<open>
  The development embeds the scalar converters, the color lookup, the path decoder, the
  pattern and line symbol decoders, the object decoder and the symbol numbering of the
  exporter. C++ \<open>int\<close> and \<open>s32\<close> values whose overflow matters are \<open>32 word\<close>,
  \<open>qint64\<close> is \<open>64 word\<close>, \<open>s16\<close> symbol numbers are \<open>16 word\<close>; integer division
  is the truncating \<open>sdiv\<close> of C++.
\<close>

subsection \<open>Sizes\<close>

text \<open>
  \<open>OCAD8FileImport::convertSize(int ocad_size)\<close> returns \<open>((qint64)ocad_size) * 10\<close>:
  the sign-extending cast, then a 64 bit multiplication.
\<close>

definition import_convertSize :: "32 word \<Rightarrow> 64 word" where
  "import_convertSize ocad_size = (scast ocad_size :: 64 word) * 10"

text \<open>
  \<open>OCAD8FileExport::convertSize(qint64 size)\<close> returns \<open>(s32)(size / 10)\<close>: the
  division truncates towards zero and the cast keeps the low 32 bits.
\<close>

definition export_convertSize :: "64 word \<Rightarrow> 32 word" where
  "export_convertSize sz = word_of_int (sint sz sdiv 10)"

subsection \<open>Rotations\<close>

text \<open>
  The \<open>float\<close> and \<open>double\<close> values of the source are given by the real numbers they
  denote. An arithmetic operation or a conversion gives the exact result rounded to the
  format, as IEEE 754 has it: \<open>round_to p x\<close> is the number with \<open>p\<close> significant bits
  nearest to \<open>x\<close>, the one with an even last bit when two are equally near, with 24 bits
  for \<open>float\<close> and 53 bits for \<open>double\<close>. The range of the exponent is not modelled: the
  values that \<open>convertRotation\<close> computes from an \<open>int\<close> are far from overflow and from
  the subnormal numbers.
\<close>

definition round_even :: "real \<Rightarrow> int" where
  "round_even x =
     (if x - of_int \<lfloor>x\<rfloor> < 1 / 2 then \<lfloor>x\<rfloor>
      else if 1 / 2 < x - of_int \<lfloor>x\<rfloor> then \<lfloor>x\<rfloor> + 1
      else if even \<lfloor>x\<rfloor> then \<lfloor>x\<rfloor> else \<lfloor>x\<rfloor> + 1)"

definition round_to :: "nat \<Rightarrow> real \<Rightarrow> real" where
  "round_to p x =
     (if x = 0 then 0
      else (let e = \<lfloor>log 2 \<bar>x\<bar>\<rfloor> - (int p - 1)
            in of_int (round_even (x / 2 powr of_int e)) * 2 powr of_int e))"

definition to_float :: "real \<Rightarrow> real" where
  "to_float x = round_to 24 x"

definition to_double :: "real \<Rightarrow> real" where
  "to_double x = round_to 53 x"

text \<open>The macro \<open>M_PI\<close> of the C library: the literal 3.14159265358979323846.\<close>

definition M_PI :: real where
  "M_PI = to_double (314159265358979323846 / 100000000000000000000)"

text \<open>
  The loop \<open>while (a < 0) a += 2 * M_PI\<close> on a \<open>double\<close>. For a negative number of a
  large magnitude the sum is rounded back to the number itself and the loop does not end:
  \<open>None\<close> is the run that does not return.
\<close>

partial_function (option) convertRotation_loop :: "real \<Rightarrow> real option" where
  "convertRotation_loop a =
     (if a < 0 then convertRotation_loop (to_double (a + to_double (2 * M_PI))) else Some a)"

declare convertRotation_loop.simps [code]

text \<open>
  \<open>OCAD8FileImport::convertRotation(int angle)\<close>:
  \<open>double a = (M_PI / 180) * (0.1f * angle)\<close>, the loop, and \<open>return (float)a\<close>. The
  product \<open>0.1f * angle\<close> is a \<open>float\<close> product of the \<open>float\<close> literal and the
  converted integer; the other operations are \<open>double\<close> operations.
\<close>

definition import_convertRotation :: "32 word \<Rightarrow> real option" where
  "import_convertRotation angle =
     map_option to_float
       (convertRotation_loop
          (to_double (to_double (M_PI / 180)
             * to_float (to_float (1 / 10) * to_float (real_of_int (sint angle))))))"

subsection \<open>Values shared by the importer and the exporter\<close>

text \<open>
  A \<open>QString\<close> is its sequence of UTF-16 code units. A \<open>MapColor*\<close> and a \<open>Symbol*\<close> of
  the exporter are the identities of the objects they point to; the null pointer is
  \<open>None\<close>. Fields of the legacy records (\<open>s16\<close>, \<open>u16\<close>) are given by their values, and
  the arithmetic on them is the \<open>int\<close> arithmetic the operands are promoted to.
\<close>

type_synonym QString = "16 word list"
type_synonym MapColor = nat

definition QString_of :: "string \<Rightarrow> QString" where
  "QString_of s = map of_char s"

text \<open>
  A warning is the message template of an \<open>addWarning\<close> call together with the values
  substituted for its placeholders (a symbol number \<open>n\<close> is printed as \<open>0.1 * n\<close>):
  \<^item> \<open>ColorIdNotFound c\<close>: Color id not found: \<open>c\<close>, ignoring this color.
  \<^item> \<open>PointedCapLengthsDiffer n b e u\<close>: In dashed line symbol \<open>n\<close>, pointed cap lengths for
    begin and end are different (\<open>b\<close> and \<open>e\<close>). Using \<open>u\<close>.
  \<^item> \<open>EndLengthNotImportable n\<close>, \<open>EndGapNotImportable n\<close>: In dashed line symbol \<open>n\<close>, the
    end length (the end gap) cannot be imported correctly.
  \<^item> \<open>MainAndEndLengthDiffer n a b u\<close>: In dashed line symbol \<open>n\<close>, main and end length are
    different (\<open>a\<close> and \<open>b\<close>). Using \<open>u\<close>.
  \<^item> \<open>GapsDiffer n a b u\<close>: In dashed line symbol \<open>n\<close>, gaps D and E are different.
  \<^item> \<open>BorderColorsDiffer n a b u\<close>, \<open>BorderWidthsDiffer n a b u\<close>: In symbol \<open>n\<close>, left and
    right borders are different colors (different width).
  \<^item> \<open>OnlyLeftBorderDashed n\<close>: In line symbol \<open>n\<close>, ignoring that only the left border
    line should be dashed.
  \<^item> \<open>IgnoringFramingLine n\<close>: In symbol \<open>n\<close>, ignoring framing line.
  \<^item> \<open>UnableToLoadObject\<close>, \<open>UnableToImportRectangleObject\<close>,
    \<open>NotImportingTextSymbol npts\<close>, \<open>UnknownTextCoordinateFormat\<close>: the messages of
    \<open>importObject\<close> and \<open>fillTextPathCoords\<close>.
  \<^item> \<open>StringTruncated t\<close>: String truncated (truncation marked with three '|'): \<open>t\<close>.
\<close>

datatype warning =
    ColorIdNotFound int
  | PointedCapLengthsDiffer int int int int
  | EndLengthNotImportable int
  | EndGapNotImportable int
  | MainAndEndLengthDiffer int int int int
  | GapsDiffer int int int int
  | BorderColorsDiffer int int int int
  | BorderWidthsDiffer int int int int
  | OnlyLeftBorderDashed int
  | IgnoringFramingLine int
  | UnableToLoadObject
  | UnableToImportRectangleObject
  | NotImportingTextSymbol int
  | UnknownTextCoordinateFormat
  | StringTruncated QString

text \<open>
  What stops a run other than by returning: \<open>LengthError\<close> is the exception of
  \<open>std::vector::resize\<close> for a negative count, \<open>OutOfRange\<close> an access outside a vector or
  a byte array, \<open>NullPointer\<close> a member access through a null pointer, \<open>AssertionFailed\<close>
  a failing \<open>assert\<close>, \<open>FormatException\<close> the exception of that name.
\<close>

datatype error = LengthError | OutOfRange | NullPointer | AssertionFailed | FormatException

text \<open>
  Passing a value as a C++ \<open>int\<close> argument, and storing a \<open>qint64\<close> in an \<open>int\<close>.
  \<open>convertSize_int v\<close> is \<open>convertSize(v)\<close> of the importer stored in an \<open>int\<close>.
\<close>

definition c_int :: "int \<Rightarrow> 32 word" where
  "c_int v = word_of_int v"

definition to_int :: "64 word \<Rightarrow> int" where
  "to_int v = sint (ucast v :: 32 word)"

definition convertSize_int :: "int \<Rightarrow> int" where
  "convertSize_int v = to_int (import_convertSize (c_int v))"

subsection \<open>Coordinates, legacy points and objects\<close>

text \<open>
  \<open>MapCoord\<close> is declared outside the sources at hand: a raw position and the four flags
  named by the accessors the codec calls.
\<close>

record MapCoord =
  rawX :: int
  rawY :: int
  curveStart :: bool
  closePoint :: bool
  holePoint :: bool
  dashPoint :: bool

text \<open>
  Modelled from the spec: \<open>MapCoord::isPositionEqualTo\<close> is not part of the sources; the
  spec describes it as the exact equality of the raw integer positions, without tolerance.
\<close>

definition isPositionEqualTo :: "MapCoord \<Rightarrow> MapCoord \<Rightarrow> bool" where
  "isPositionEqualTo a b = (rawX a = rawX b \<and> rawY a = rawY b)"

text \<open>
  A legacy point as \<open>ocad_point(buf, pt)\<close> of libocad presents it: \<open>buf[0]\<close>, \<open>buf[1]\<close> and
  the tests of \<open>buf[2]\<close> against the flag masks \<open>PX_CTL1\<close>, \<open>PY_DASH << 8\<close>,
  \<open>PY_CORNER << 8\<close> and \<open>PY_HOLE << 8\<close> (libocad is not part of the sources).
\<close>

record OCADPoint =
  pt_x :: int
  pt_y :: int
  px_ctl1 :: bool
  py_dash :: bool
  py_corner :: bool
  py_hole :: bool

datatype ObjectType = Object_Point | Object_Path | Object_Text

record 's Object =
  obj_type :: ObjectType
  obj_symbol :: "'s option"
  coords :: "MapCoord list"
  rotation :: real

subsection \<open>Symbols of the map\<close>

record Symbol =
  name :: QString
  number0 :: int
  number1 :: int
  number2 :: int
  is_helper_symbol :: bool
  is_hidden :: bool
  is_protected :: bool

text \<open>\<open>Symbol::Symbol(Type type)\<close> of symbol.cpp; the name is the empty string.\<close>

definition Symbol_new :: Symbol where
  "Symbol_new = \<lparr>name = [], number0 = - 1, number1 = - 1, number2 = - 1,
     is_helper_symbol = False, is_hidden = False, is_protected = False\<rparr>"

text \<open>
  The symbol of a pattern element is a newly constructed symbol on which \<open>importPattern\<close>
  assigns the fields listed here and no other.
\<close>

datatype ElementSymbol =
    Element_Point (el_rotatable: bool) (el_inner_radius: int) (el_inner_color: "MapColor option")
      (el_outer_width: int) (el_outer_color: "MapColor option")
  | Element_Line (el_line_width: int) (el_color: "MapColor option")
  | Element_Area (el_area_color: "MapColor option")

record PointSymbol = Symbol +
  rotatable :: bool
  inner_radius :: int
  inner_color :: "MapColor option"
  outer_width :: int
  outer_color :: "MapColor option"
  elements :: "(ElementSymbol Object \<times> ElementSymbol) list"

datatype CapStyle = FlatCap | RoundCap | SquareCap | PointedCap
datatype JoinStyle = BevelJoin | MiterJoin | RoundJoin

record LineSymbol = Symbol +
  line_width :: int
  color :: "MapColor option"
  minimum_length :: int
  cap_style :: CapStyle
  join_style :: JoinStyle
  pointed_cap_length :: int
  dashed :: bool
  segment_length :: int
  end_length :: int
  dash_length :: int
  break_length :: int
  dashes_in_group :: int
  in_group_break_length :: int
  half_outer_dashes :: bool
  mid_symbol :: "PointSymbol option"
  mid_symbols_per_spot :: int
  mid_symbol_distance :: int
  dash_symbol :: "PointSymbol option"
  start_symbol :: "PointSymbol option"
  end_symbol :: "PointSymbol option"
  minimum_mid_symbol_count :: int
  minimum_mid_symbol_count_when_closed :: int
  show_at_least_one_symbol :: bool
  have_border_lines :: bool
  border_color :: "MapColor option"
  border_width :: int
  border_shift :: int
  dashed_border :: bool
  border_dash_length :: int
  border_break_length :: int

text \<open>
  What a \<open>Symbol*\<close> of the importer points to. Area and text symbols carry the common
  fields only: their decoders are not embedded.
\<close>

datatype MapSymbol =
    Symbol_Point PointSymbol
  | Symbol_Line LineSymbol
  | Symbol_Area Symbol
  | Symbol_Text Symbol
  | Symbol_Combined Symbol "MapSymbol list"

subsection \<open>Legacy records\<close>

record OCADSymbolElement =
  e_type :: int
  e_flags :: int
  e_color :: int
  e_width :: int
  e_diameter :: int
  e_npts :: int

text \<open>
  The element type tags, as \<open>exportSubPattern\<close> writes them: 1 line, 2 area, 3 circle, 4 dot.
\<close>

definition OCAD_LINE_ELEMENT :: int where "OCAD_LINE_ELEMENT = 1"
definition OCAD_AREA_ELEMENT :: int where "OCAD_AREA_ELEMENT = 2"
definition OCAD_CIRCLE_ELEMENT :: int where "OCAD_CIRCLE_ELEMENT = 3"
definition OCAD_DOT_ELEMENT :: int where "OCAD_DOT_ELEMENT = 4"

text \<open>
  Pattern data is an array of \<open>OCADPoint\<close> that \<open>importPattern\<close> also reads through
  \<open>OCADSymbolElement*\<close> casts. The memory is given by its two views: \<open>elt_at m p\<close> is the
  element header read at slot \<open>p\<close> (it occupies two slots), \<open>pt_at m p\<close> the point read at
  slot \<open>p\<close>. Slots outside the array are whatever memory lies there.
\<close>

record pattern_memory =
  elt_at :: "int \<Rightarrow> OCADSymbolElement"
  pt_at :: "int \<Rightarrow> OCADPoint"



record OCADObject =
  ob_symbol :: int
  ob_type :: int
  ob_angle :: int
  ob_npts :: int
  ob_pts :: "nat \<Rightarrow> OCADPoint"

subsection \<open>The importer\<close>

text \<open>
  A pointer to a symbol of the map: the symbol registered for a legacy number, or one of
  the map's two symbols for undefined objects.
\<close>

datatype symbol_ref = Indexed int | UndefinedPoint | UndefinedLine

text \<open>
  The members of \<open>OCAD8FileImport\<close> the embedded functions use, with the symbols that
  \<open>symbol_index\<close> and the map's undefined symbols point to. \<open>rectangle_info\<close> is given by
  its keys.
\<close>

record Importer =
  color_index :: "int \<rightharpoonup> MapColor"
  symbol_index :: "int \<rightharpoonup> MapSymbol"
  rectangle_info :: "int set"
  undefined_point :: PointSymbol
  undefined_line :: LineSymbol
  warnings :: "warning list"
  offset_x :: int
  offset_y :: int

text \<open>
  What the embedded functions take from code outside the sources at hand: the default
  constructor of \<open>MapCoord\<close>, the values the constructors of \<open>PointSymbol\<close> and
  \<open>LineSymbol\<close> give to the fields of these classes, the coordinates and rotation of a
  newly constructed object, \<open>PointSymbol::isSymmetrical\<close>, the single byte codec, and the
  branches of \<open>importObject\<close> for rectangle and text objects, which compute with floating
  point numbers and font metrics.
\<close>

record Env =
  MapCoord_new :: MapCoord
  PointSymbol_init :: "unit PointSymbol_ext"
  LineSymbol_init :: "unit LineSymbol_ext"
  Object_coords_new :: "ObjectType \<Rightarrow> MapCoord list"
  Object_rotation_new :: real
  isSymmetrical :: "PointSymbol \<Rightarrow> bool"
  toUnicode :: "8 word list \<Rightarrow> QString"
  importRectangleObject :: "OCADObject \<Rightarrow> bool"
  importTextObject :: "OCADObject \<Rightarrow> symbol_ref Object"

definition PointSymbol_new :: "Env \<Rightarrow> PointSymbol" where
  "PointSymbol_new env = Symbol.extend Symbol_new (PointSymbol_init env)"

definition LineSymbol_new :: "Env \<Rightarrow> LineSymbol" where
  "LineSymbol_new env = Symbol.extend Symbol_new (LineSymbol_init env)"

definition addWarning :: "warning \<Rightarrow> 'a Importer_scheme \<Rightarrow> 'a Importer_scheme" where
  "addWarning w st = st\<lparr>warnings := warnings st @ [w]\<rparr>"

definition convertColor ::
  "int \<Rightarrow> 'a Importer_scheme \<Rightarrow> MapColor option \<times> 'a Importer_scheme" where
  "convertColor c st =
     (if c \<notin> dom (color_index st)
      then (None, addWarning (ColorIdNotFound c) st)
      else (color_index st c, st))"

definition convertPoint :: "'a Importer_scheme \<Rightarrow> MapCoord \<Rightarrow> int \<Rightarrow> int \<Rightarrow> MapCoord" where
  "convertPoint st coord ocad_x ocad_y =
     coord\<lparr>rawX := offset_x st + ocad_x * 10, rawY := offset_y st + ocad_y * (- 10)\<rparr>"


subsection \<open>fillPathCoords\<close>

text \<open>\<open>std::vector::resize\<close> to a non-negative size, new elements default-constructed.\<close>

definition resize :: "'a \<Rightarrow> nat \<Rightarrow> 'a list \<Rightarrow> 'a list" where
  "resize d n xs = take n xs @ replicate (n - length xs) d"

text \<open>One round of the first loop of \<open>fillPathCoords\<close>, for the index \<open>i\<close>.\<close>

definition fillPathCoords_point ::
  "'a Importer_scheme \<Rightarrow> bool \<Rightarrow> (nat \<Rightarrow> OCADPoint) \<Rightarrow> nat \<Rightarrow> MapCoord list
     \<Rightarrow> error + MapCoord list" where
  "fillPathCoords_point st is_area pts i cs =
     (let buf = pts i;
          cs1 = cs[i := convertPoint st (cs ! i) (pt_x buf) (pt_y buf)];
          cs2 = (if px_ctl1 buf \<and> i > 0
                 then cs1[i - 1 := (cs1 ! (i - 1))\<lparr>curveStart := True\<rparr>] else cs1);
          cs3 = (if py_dash buf \<or> py_corner buf
                 then cs2[i := (cs2 ! i)\<lparr>dashPoint := True\<rparr>] else cs2)
      in if py_hole buf then
           (if is_area then
              (if i = 0 then Inl OutOfRange
               else Inr (cs3[i - 1 := (cs3 ! (i - 1))\<lparr>holePoint := True\<rparr>]))
            else Inr (cs3[i := (cs3 ! i)\<lparr>holePoint := True\<rparr>]))
         else Inr cs3)"

primrec fillPathCoords_points ::
  "'a Importer_scheme \<Rightarrow> bool \<Rightarrow> (nat \<Rightarrow> OCADPoint) \<Rightarrow> nat list \<Rightarrow> MapCoord list
     \<Rightarrow> error + MapCoord list" where
  "fillPathCoords_points st is_area pts [] cs = Inr cs"
| "fillPathCoords_points st is_area pts (i # is) cs =
     (case fillPathCoords_point st is_area pts i cs of
        Inl e \<Rightarrow> Inl e
      | Inr cs' \<Rightarrow> fillPathCoords_points st is_area pts is cs')"

text \<open>
  One round of the second loop, for the index \<open>i\<close>; the state is \<open>start\<close> and the
  coordinates.
\<close>

definition closePart_step :: "nat \<times> MapCoord list \<Rightarrow> nat \<Rightarrow> nat \<times> MapCoord list" where
  "closePart_step s i =
     (let start = fst s; cs = snd s in
      if \<not> holePoint (cs ! i) \<and> int i < int (length cs) - 1 then (start, cs)
      else (i + 1,
            if isPositionEqualTo (cs ! i) (cs ! start)
            then cs[i := (cs ! i)\<lparr>closePoint := True\<rparr>] else cs))"

definition closeParts :: "MapCoord list \<Rightarrow> MapCoord list" where
  "closeParts cs = snd (foldl closePart_step (0, cs) [0..<length cs])"

definition fillPathCoords ::
  "Env \<Rightarrow> 'a Importer_scheme \<Rightarrow> ('s, 'b) Object_scheme \<Rightarrow> bool \<Rightarrow> int \<Rightarrow> (nat \<Rightarrow> OCADPoint)
     \<Rightarrow> error + ('s, 'b) Object_scheme" where
  "fillPathCoords env st object is_area npts pts =
     (if npts < 0 then Inl LengthError
      else case fillPathCoords_points st is_area pts [0..<nat npts]
                  (resize (MapCoord_new env) (nat npts) (coords object)) of
             Inl e \<Rightarrow> Inl e
           | Inr cs \<Rightarrow>
               Inr (object\<lparr>coords :=
                      (if obj_type object = Object_Path then closeParts cs else cs)\<rparr>))"

subsection \<open>importPattern\<close>

definition new_object :: "Env \<Rightarrow> ObjectType \<Rightarrow> 's \<Rightarrow> 's Object" where
  "new_object env ty sy =
     \<lparr>obj_type = ty, obj_symbol = Some sy, coords = Object_coords_new env ty,
      rotation = Object_rotation_new env\<rparr>"

text \<open>\<open>PointSymbol::addElement(pos, object, symbol)\<close>: insertion at the position \<open>pos\<close>.\<close>

definition addElement ::
  "nat \<Rightarrow> ElementSymbol Object \<Rightarrow> ElementSymbol \<Rightarrow> PointSymbol \<Rightarrow> PointSymbol" where
  "addElement pos object sy symbol =
     symbol\<lparr>elements := take pos (elements symbol) @ [(object, sy)] @ drop pos (elements symbol)\<rparr>"

text \<open>
  The body of the loop of \<open>importPattern\<close> for the element at slot \<open>p\<close>; \<open>pts\<close> and
  \<open>pend\<close> are the first slot of the pattern and the slot after its last. The call of
  \<open>recalculateParts\<close> on a path element derives the parts of the path from its
  coordinates and is not modelled.
\<close>

definition importPattern_element ::
  "Env \<Rightarrow> pattern_memory \<Rightarrow> int \<Rightarrow> int \<Rightarrow> int \<Rightarrow> Importer \<times> PointSymbol
     \<Rightarrow> error + Importer \<times> PointSymbol" where
  "importPattern_element env mem pts pend p s =
     (let st = fst s; symbol = snd s;
          elt = elt_at mem p;
          element_index = length (elements symbol);
          multiple_elements = (p + (2 + e_npts elt) < pend \<or> p > pts)
      in if e_type elt = OCAD_DOT_ELEMENT then
           (let inner_radius = convertSize_int (e_diameter elt) sdiv 2 in
            if inner_radius > 0 then
              (let (c, st1) = convertColor (e_color elt) st in
               if multiple_elements then
                 (let element_symbol = Element_Point False inner_radius c 0 None;
                      element_object = new_object env Object_Point element_symbol;
                      element_object = element_object\<lparr>coords :=
                        resize (MapCoord_new env) 1 (coords element_object)\<rparr>
                  in Inr (st1, addElement element_index element_object element_symbol symbol))
               else Inr (st1, symbol\<lparr>inner_color := c, inner_radius := inner_radius,
                                      outer_color := None, outer_width := 0\<rparr>))
            else Inr (st, symbol))
         else if e_type elt = OCAD_CIRCLE_ELEMENT then
           (let inner_radius = convertSize_int (e_diameter elt) sdiv 2 - convertSize_int (e_width elt);
                outer_width = convertSize_int (e_width elt) in
            if outer_width > 0 \<and> inner_radius > 0 then
              (let (c, st1) = convertColor (e_color elt) st in
               if multiple_elements then
                 (let element_symbol = Element_Point False inner_radius None outer_width c;
                      element_object = new_object env Object_Point element_symbol;
                      element_object = element_object\<lparr>coords :=
                        resize (MapCoord_new env) 1 (coords element_object)\<rparr>
                  in Inr (st1, addElement element_index element_object element_symbol symbol))
               else Inr (st1, symbol\<lparr>inner_color := None, inner_radius := inner_radius,
                                      outer_color := c, outer_width := outer_width\<rparr>))
            else Inr (st, symbol))
         else if e_type elt = OCAD_LINE_ELEMENT then
           (let (c, st1) = convertColor (e_color elt) st;
                element_symbol = Element_Line (convertSize_int (e_width elt)) c in
            case fillPathCoords env st1 (new_object env Object_Path element_symbol) False
                   (e_npts elt) (\<lambda>i. pt_at mem (p + 2 + int i)) of
              Inl e \<Rightarrow> Inl e
            | Inr element_object \<Rightarrow>
                Inr (st1, addElement element_index element_object element_symbol symbol))
         else if e_type elt = OCAD_AREA_ELEMENT then
           (let (c, st1) = convertColor (e_color elt) st;
                element_symbol = Element_Area c in
            case fillPathCoords env st1 (new_object env Object_Path element_symbol) True
                   (e_npts elt) (\<lambda>i. pt_at mem (p + 2 + int i)) of
              Inl e \<Rightarrow> Inl e
            | Inr element_object \<Rightarrow>
                Inr (st1, addElement element_index element_object element_symbol symbol))
         else Inr (st, symbol))"

text \<open>
  The loop \<open>while (p < end)\<close>. It advances by \<open>2 + elt->npts\<close> slots, which a malformed
  element can make zero or negative: the loop need not end, and \<open>None\<close> is the run that
  does not return.
\<close>

partial_function (option) importPattern_loop ::
  "Env \<Rightarrow> pattern_memory \<Rightarrow> int \<Rightarrow> int \<Rightarrow> int \<Rightarrow> Importer \<times> PointSymbol
     \<Rightarrow> (error + Importer \<times> PointSymbol) option" where
  "importPattern_loop env mem pts pend p s =
     (if p < pend then
        (case importPattern_element env mem pts pend p s of
           Inl e \<Rightarrow> Some (Inl e)
         | Inr s' \<Rightarrow> importPattern_loop env mem pts pend (p + (2 + e_npts (elt_at mem p))) s')
      else Some (Inr s))"

declare importPattern_loop.simps [code]

text \<open>\<open>importPattern(npts, pts)\<close>, for the pattern that starts at slot \<open>pts\<close> of the memory.\<close>

definition importPattern ::
  "Env \<Rightarrow> pattern_memory \<Rightarrow> int \<Rightarrow> int \<Rightarrow> Importer \<Rightarrow> (error + Importer \<times> PointSymbol) option" where
  "importPattern env mem npts pts st =
     importPattern_loop env mem pts (pts + npts) pts (st, (PointSymbol_new env)\<lparr>rotatable := True\<rparr>)"

subsection \<open>importLineSymbol\<close>

text \<open>
  A run ends without returning (\<open>None\<close>), with an error, or with a value. \<open>bindR\<close>
  continues a run that returned.
\<close>

type_synonym 'a run = "(error + 'a) option"

definition bindR :: "'a run \<Rightarrow> ('a \<Rightarrow> 'b run) \<Rightarrow> 'b run" where
  "bindR r f = (case r of None \<Rightarrow> None | Some (Inl e) \<Rightarrow> Some (Inl e) | Some (Inr x) \<Rightarrow> f x)"












subsection \<open>importObject\<close>

definition set_symbol :: "symbol_ref \<Rightarrow> PointSymbol \<Rightarrow> Importer \<Rightarrow> Importer" where
  "set_symbol r ps st =
     (case r of
        Indexed k \<Rightarrow> st\<lparr>symbol_index := (symbol_index st)(k \<mapsto> Symbol_Point ps)\<rparr>
      | UndefinedPoint \<Rightarrow> st\<lparr>undefined_point := ps\<rparr>
      | UndefinedLine \<Rightarrow> st)"

text \<open>
  The part of \<open>importObject\<close> after the symbol has been found: \<open>r\<close> is the pointer
  \<open>symbol\<close> and \<open>sy\<close> the symbol it points to. The angle of the object is passed to
  \<open>convertRotation\<close> as an \<open>int\<close>; the result is \<open>None\<close> when that call does not
  return.
\<close>

definition importObject_symbol ::
  "Env \<Rightarrow> OCADObject \<Rightarrow> symbol_ref \<Rightarrow> MapSymbol \<Rightarrow> Importer
     \<Rightarrow> (symbol_ref Object option \<times> Importer) run" where
  "importObject_symbol env ocad_object r sy st =
     (case sy of
        Symbol_Point point_symbol \<Rightarrow>
          (let p = new_object env Object_Point r in
           case (if rotatable point_symbol
                 then map_option (\<lambda>a. (p\<lparr>rotation := a\<rparr>, point_symbol))
                        (import_convertRotation (c_int (ob_angle ocad_object)))
                 else if ob_angle ocad_object \<noteq> 0 then
                   (if \<not> isSymmetrical env point_symbol
                    then map_option (\<lambda>a. (p\<lparr>rotation := a\<rparr>, point_symbol\<lparr>rotatable := True\<rparr>))
                           (import_convertRotation (c_int (ob_angle ocad_object)))
                    else Some (p, point_symbol))
                 else Some (p, point_symbol)) of
             None \<Rightarrow> None
           | Some (p1, point_symbol') \<Rightarrow>
               (let st1 = set_symbol r point_symbol' st
                in case fillPathCoords env st1 p1 False 1 (ob_pts ocad_object) of
                     Inl e \<Rightarrow> Some (Inl e)
                   | Inr p2 \<Rightarrow> Some (Inr (Some p2, st1))))
      | Symbol_Text _ \<Rightarrow>
          (if ob_npts ocad_object = 0
           then Some (Inr (None, addWarning (NotImportingTextSymbol (ob_npts ocad_object)) st))
           else Some (Inr (Some (importTextObject env ocad_object),
                     if ob_npts ocad_object \<noteq> 4 \<and> ob_npts ocad_object \<noteq> 5
                     then addWarning UnknownTextCoordinateFormat st else st)))
      | Symbol_Line _ \<Rightarrow>
          (case fillPathCoords env st (new_object env Object_Path r) False
                  (ob_npts ocad_object) (ob_pts ocad_object) of
             Inl e \<Rightarrow> Some (Inl e) | Inr p \<Rightarrow> Some (Inr (Some p, st)))
      | Symbol_Area _ \<Rightarrow>
          (case fillPathCoords env st (new_object env Object_Path r) True
                  (ob_npts ocad_object) (ob_pts ocad_object) of
             Inl e \<Rightarrow> Some (Inl e) | Inr p \<Rightarrow> Some (Inr (Some p, st)))
      | Symbol_Combined _ _ \<Rightarrow>
          (case fillPathCoords env st (new_object env Object_Path r) False
                  (ob_npts ocad_object) (ob_pts ocad_object) of
             Inl e \<Rightarrow> Some (Inl e) | Inr p \<Rightarrow> Some (Inr (Some p, st))))"

definition importObject ::
  "Env \<Rightarrow> OCADObject \<Rightarrow> Importer \<Rightarrow> (symbol_ref Object option \<times> Importer) run" where
  "importObject env ocad_object st =
     (case symbol_index st (ob_symbol ocad_object) of
        None \<Rightarrow>
          (if ob_symbol ocad_object \<notin> rectangle_info st then
             (if ob_type ocad_object = 1
              then importObject_symbol env ocad_object UndefinedPoint
                     (Symbol_Point (undefined_point st)) st
              else if ob_type ocad_object = 2 \<or> ob_type ocad_object = 3
              then importObject_symbol env ocad_object UndefinedLine
                     (Symbol_Line (undefined_line st)) st
              else Some (Inr (None, addWarning UnableToLoadObject st)))
           else
             (if \<not> importRectangleObject env ocad_object
              then Some (Inr (None, addWarning UnableToImportRectangleObject st))
              else Some (Inr (None, st))))
      | Some sy \<Rightarrow> importObject_symbol env ocad_object (Indexed (ob_symbol ocad_object)) sy st)"

subsection \<open>The exporter: strings\<close>

text \<open>
  Modelled from the spec: \<open>QString::insert\<close> belongs to Qt and is not part of the sources;
  the spec has the marker inserted at the cut point. \<open>QString_insert i s text\<close> is \<open>text\<close>
  with \<open>s\<close> inserted before position \<open>i\<close>; for a negative position the text is left
  as it is, and a position past the end is reached by padding with spaces, as Qt does.
\<close>

definition QString_insert :: "int \<Rightarrow> QString \<Rightarrow> QString \<Rightarrow> QString" where
  "QString_insert i s text =
     (if i < 0 then text
      else take (nat i) text @ replicate (nat i - length text) 32 @ s @ drop (nat i) text)"

text \<open>
  The members of \<open>OCAD8FileExport\<close> the embedded functions use, and the symbol and object
  records of the file under construction, reduced to the fields the embedded functions
  assign: \<open>symbol_index\<close> maps a \<open>Symbol*\<close> (the position of the symbol in the map) to its
  set of legacy numbers, \<open>text_format_map\<close> maps a \<open>TextSymbol*\<close> to the alignments already
  exported for it, each with its legacy number. A \<open>std::set<s16>\<close> that the exporter
  traverses is the sequence of its elements in the increasing order of the signed numbers,
  and \<open>set_insert\<close> is its \<open>insert\<close>.
\<close>

definition set_insert :: "16 word \<Rightarrow> 16 word list \<Rightarrow> 16 word list" where
  "set_insert n ns = insort_insert_key sint n ns"

datatype HorizontalAlignment = AlignLeft | AlignHCenter | AlignRight

record OCADSymbolRecord =
  x_name :: "8 word list"
  x_number :: "16 word"
  x_type :: int
  x_status :: int
  x_halign :: int

record OCADObjectRecord =
  xo_symbol :: "16 word"
  xo_type :: int

record Exporter =
  symbol_numbers :: "16 word set"
  file_symbols :: "OCADSymbolRecord list"
  file_objects :: "OCADObjectRecord list"
  export_symbol_index :: "nat \<rightharpoonup> 16 word list"
  text_format_map :: "nat \<rightharpoonup> (HorizontalAlignment \<times> 16 word) list"
  export_warnings :: "warning list"

text \<open>
  An object of the map as the exporter reads it: its type, its symbol (the position of the
  symbol in the map, if it is one of the map's symbols), for a text object its horizontal
  alignment and whether it has a single anchor. The map: its symbols, the objects of its
  layers in the order of the export, and its number of colors.
\<close>

record MapObject =
  mo_type :: ObjectType
  mo_symbol :: nat
  mo_halign :: HorizontalAlignment
  mo_single_anchor :: bool

record Map =
  map_symbols :: "MapSymbol list"
  map_objects :: "MapObject list"
  map_num_colors :: nat

text \<open>
  What the exporter takes from code outside the sources at hand: the single byte codec,
  the plain text of a rich text name (Qt's \<open>QTextDocument\<close>), and
  \<open>Map::determineSymbolUseClosure\<close>, given as the bit field it leaves when called with
  the bit of one symbol set.
\<close>

record ExportEnv =
  fromUnicode :: "QString \<Rightarrow> 8 word list"
  toPlainText :: "QString \<Rightarrow> QString"
  determineSymbolUseClosure :: "MapSymbol list \<Rightarrow> nat \<Rightarrow> nat \<Rightarrow> bool"

definition export_addWarning :: "warning \<Rightarrow> Exporter \<Rightarrow> Exporter" where
  "export_addWarning w st = st\<lparr>export_warnings := export_warnings st @ [w]\<rparr>"

definition addStringTruncationWarning :: "QString \<Rightarrow> int \<Rightarrow> Exporter \<Rightarrow> Exporter" where
  "addStringTruncationWarning text truncation_pos st =
     export_addWarning (StringTruncated (QString_insert truncation_pos (QString_of ''|||'') text)) st"

text \<open>
  \<open>OCAD8FileExport::convertPascalString(text, buffer, buffer_size)\<close>. \<open>buffer\<close> is the
  memory from the address \<open>buffer\<close> on; the result is this memory after the call. A copy
  of more bytes than the encoded text or the memory holds, or of a negative number of bytes,
  is the error \<open>OutOfRange\<close>.
\<close>

definition export_convertPascalString ::
  "ExportEnv \<Rightarrow> QString \<Rightarrow> 8 word list \<Rightarrow> int \<Rightarrow> Exporter \<Rightarrow> error + 8 word list \<times> Exporter" where
  "export_convertPascalString env text buffer buffer_size st =
     (if \<not> buffer_size \<le> 256 then Inl AssertionFailed
      else
        let max_size = buffer_size - 1;
            st1 = (if int (length text) > max_size
                   then addStringTruncationWarning text max_size st else st);
            data = fromUnicode env text;
            min_size = min (int (length text)) max_size
        in if min_size < 0 \<or> int (length data) < min_size \<or> int (length buffer) < 1 + min_size
           then Inl OutOfRange
           else Inr (word_of_int min_size # take (nat min_size) data
                       @ drop (1 + nat min_size) buffer, st1))"

subsection \<open>The exporter: symbol numbers\<close>

fun symbol_common :: "MapSymbol \<Rightarrow> Symbol" where
  "symbol_common (Symbol_Point s) = Symbol.truncate s"
| "symbol_common (Symbol_Line s) = Symbol.truncate s"
| "symbol_common (Symbol_Area s) = s"
| "symbol_common (Symbol_Text s) = s"
| "symbol_common (Symbol_Combined s parts) = s"

text \<open>\<open>Symbol::getPlainTextName\<close> of symbol.cpp.\<close>

definition getPlainTextName :: "ExportEnv \<Rightarrow> Symbol \<Rightarrow> QString" where
  "getPlainTextName env s =
     (if of_char CHR ''<'' \<in> set (name s) then toPlainText env (name s) else name s)"

text \<open>
  The loop \<open>while (symbol_numbers.find(number) != symbol_numbers.end()) ++number\<close> on an
  \<open>s16\<close> number: the increment wraps around, and the loop does not end when every number
  is taken.
\<close>

partial_function (option) unique_number :: "16 word set \<Rightarrow> 16 word \<Rightarrow> 16 word option" where
  "unique_number numbers n =
     (if n \<in> numbers then unique_number numbers (n + 1) else Some n)"

declare unique_number.simps [code]

text \<open>
  \<open>exportCommonSymbolFields\<close>: the name, the number made unique and registered, and the
  status bits. The size, the bit set of the used colors and the icon are not modelled.
\<close>

definition exportCommonSymbolFields ::
  "ExportEnv \<Rightarrow> Symbol \<Rightarrow> OCADSymbolRecord \<Rightarrow> Exporter \<Rightarrow> (OCADSymbolRecord \<times> Exporter) run" where
  "exportCommonSymbolFields env symbol ocad_symbol st =
     (case export_convertPascalString env (getPlainTextName env symbol) (x_name ocad_symbol) 32 st of
        Inl e \<Rightarrow> Some (Inl e)
      | Inr (buffer, st1) \<Rightarrow>
          (let n0 = (word_of_int (number0 symbol * 10) :: 16 word);
               n1 = (if number1 symbol \<ge> 0 then n0 + word_of_int (number1 symbol smod 10) else n0)
           in case unique_number (symbol_numbers st1) n1 of
                None \<Rightarrow> None
              | Some n \<Rightarrow>
                  (let st2 = st1\<lparr>symbol_numbers := insert n (symbol_numbers st1)\<rparr>;
                       s1 = ocad_symbol\<lparr>x_name := buffer, x_number := n\<rparr>;
                       s2 = (if is_protected symbol then s1\<lparr>x_status := x_status s1 OR 1\<rparr> else s1);
                       s3 = (if is_hidden symbol then s2\<lparr>x_status := x_status s2 OR 2\<rparr> else s2)
                   in Some (Inr (s3, st2)))))"

text \<open>
  Modelled from the spec: \<open>ocad_symbol_new\<close> belongs to libocad; the legacy buffer is
  constructed fresh, and a new symbol record is taken to be zeroed, with a name field of
  32 bytes.
\<close>

definition ocad_symbol_new :: OCADSymbolRecord where
  "ocad_symbol_new = \<lparr>x_name = replicate 32 0, x_number = 0, x_type = 0, x_status = 0,
     x_halign = 0\<rparr>"

text \<open>
  Modelled from the spec: \<open>ocad_symbol(file, number)\<close> belongs to libocad; it is taken to
  find the first symbol record of the file with the given number, with its position in the
  file, and to return null when there is none.
\<close>

fun ocad_symbol_by_number :: "OCADSymbolRecord list \<Rightarrow> 16 word \<Rightarrow> nat option" where
  "ocad_symbol_by_number [] n = None"
| "ocad_symbol_by_number (s # ss) n =
     (if x_number s = n then Some 0 else map_option Suc (ocad_symbol_by_number ss n))"

text \<open>
  \<open>exportPointSymbol\<close>, \<open>exportLineSymbol\<close>, \<open>exportAreaSymbol\<close> and \<open>exportTextSymbol\<close>,
  as far as the record and its number go: a new record, its common fields, its type tag
  (1 point, 2 line, 3 area, 4 text). The fields particular to the kind of symbol are not
  modelled. The result is the number of the record.
\<close>

definition exportSymbol ::
  "ExportEnv \<Rightarrow> int \<Rightarrow> Symbol \<Rightarrow> Exporter \<Rightarrow> (16 word \<times> Exporter) run" where
  "exportSymbol env ty symbol st =
     bindR (exportCommonSymbolFields env symbol ocad_symbol_new st) (\<lambda>(ocad_symbol, st1).
       Some (Inr (x_number ocad_symbol,
                  st1\<lparr>file_symbols := file_symbols st1 @ [ocad_symbol\<lparr>x_type := ty\<rparr>]\<rparr>)))"

text \<open>
  \<open>exportCombinedSymbol\<close>: the numbers of the symbols in the closure that have numbers.
\<close>

definition exportCombinedSymbol :: "ExportEnv \<Rightarrow> Map \<Rightarrow> nat \<Rightarrow> Exporter \<Rightarrow> 16 word list" where
  "exportCombinedSymbol env m i st =
     (let map_bitfield = determineSymbolUseClosure env (map_symbols m) i
      in foldl (\<lambda>result j.
                  case export_symbol_index st j of
                    Some ns \<Rightarrow> if map_bitfield j then foldl (\<lambda>r n. set_insert n r) result ns
                               else result
                  | None \<Rightarrow> result)
           [] [0..<length (map_symbols m)])"

text \<open>The first loop over the symbols of the map, for the symbol at the position \<open>i\<close>.\<close>

definition doExport_symbol :: "ExportEnv \<Rightarrow> Map \<Rightarrow> nat \<Rightarrow> Exporter \<Rightarrow> Exporter run" where
  "doExport_symbol env m i st =
     (let symbol = map_symbols m ! i;
          r = (case symbol of
                 Symbol_Point _ \<Rightarrow> exportSymbol env 1 (symbol_common symbol) st
               | Symbol_Line _ \<Rightarrow> exportSymbol env 2 (symbol_common symbol) st
               | Symbol_Area _ \<Rightarrow> exportSymbol env 3 (symbol_common symbol) st
               | Symbol_Text _ \<Rightarrow> exportSymbol env 4 (symbol_common symbol) st
               | Symbol_Combined _ _ \<Rightarrow> Some (Inr (- 1, st)))
      in bindR r (\<lambda>(index, st').
           if 0 \<le> sint index
           then Some (Inr (st'\<lparr>export_symbol_index :=
                                (export_symbol_index st')(i \<mapsto> set_insert index [])\<rparr>))
           else Some (Inr st')))"

text \<open>The second loop over the symbols of the map, for the symbol at the position \<open>i\<close>.\<close>

definition doExport_combined :: "ExportEnv \<Rightarrow> Map \<Rightarrow> nat \<Rightarrow> Exporter \<Rightarrow> Exporter" where
  "doExport_combined env m i st =
     (case map_symbols m ! i of
        Symbol_Combined _ _ \<Rightarrow>
          st\<lparr>export_symbol_index :=
               (export_symbol_index st)(i \<mapsto> exportCombinedSymbol env m i st)\<rparr>
      | _ \<Rightarrow> st)"

definition setTextSymbolFormatting ::
  "OCADSymbolRecord \<Rightarrow> HorizontalAlignment \<Rightarrow> OCADSymbolRecord" where
  "setTextSymbolFormatting ocad_symbol formatting =
     (case formatting of
        AlignLeft \<Rightarrow> ocad_symbol\<lparr>x_halign := 0\<rparr>
      | AlignHCenter \<Rightarrow> ocad_symbol\<lparr>x_halign := 1\<rparr>
      | AlignRight \<Rightarrow> ocad_symbol\<lparr>x_halign := 2\<rparr>)"

text \<open>
  The block of \<open>doExport\<close> under the comment "For text objects, check if we have to change
  / create a new text symbol because of the formatting", for the number \<open>it\<close> of the index
  set: the result is \<open>index_to_use\<close>.
\<close>

definition doExport_text_format ::
  "MapObject \<Rightarrow> 16 word \<Rightarrow> Exporter \<Rightarrow> (16 word \<times> Exporter) run" where
  "doExport_text_format object it st =
     (let text_symbol = mo_symbol object in
      case text_format_map st text_symbol of
        None \<Rightarrow>
          (case ocad_symbol_by_number (file_symbols st) it of
             None \<Rightarrow> Some (Inl NullPointer)
           | Some k \<Rightarrow>
               Some (Inr (it,
                 st\<lparr>file_symbols := (file_symbols st)
                       [k := setTextSymbolFormatting (file_symbols st ! k) (mo_halign object)],
                    text_format_map := (text_format_map st)
                       (text_symbol \<mapsto> [(mo_halign object, it)])\<rparr>)))
      | Some format_list \<Rightarrow>
          (case find (\<lambda>f. fst f = mo_halign object) format_list of
             Some f \<Rightarrow> Some (Inr (snd f, st))
           | None \<Rightarrow>
               (case ocad_symbol_by_number (file_symbols st) it of
                  None \<Rightarrow> Some (Inl NullPointer)
                | Some k \<Rightarrow>
                    (let new_symbol = setTextSymbolFormatting (file_symbols st ! k)
                                        (mo_halign object)
                     in case unique_number (symbol_numbers st) (x_number new_symbol) of
                          None \<Rightarrow> None
                        | Some n \<Rightarrow>
                            Some (Inr (n,
                              st\<lparr>file_symbols := file_symbols st @ [new_symbol\<lparr>x_number := n\<rparr>],
                                 symbol_numbers := insert n (symbol_numbers st),
                                 text_format_map := (text_format_map st)
                                   (text_symbol \<mapsto> format_list @ [(mo_halign object, n)])\<rparr>))))))"

text \<open>The body of the loop over the index set of an object, for the number \<open>it\<close>.\<close>

definition doExport_object_index :: "MapObject \<Rightarrow> 16 word \<Rightarrow> Exporter \<Rightarrow> Exporter run" where
  "doExport_object_index object it st =
     bindR (if mo_type object = Object_Text then doExport_text_format object it st
            else Some (Inr (it, st))) (\<lambda>(index_to_use, st1).
       let ty = (case mo_type object of
                   Object_Point \<Rightarrow> 1
                 | Object_Path \<Rightarrow>
                     (case ocad_symbol_by_number (file_symbols st1) index_to_use of
                        None \<Rightarrow> 2
                      | Some k \<Rightarrow> if x_type (file_symbols st1 ! k) = 2 then 2 else 3)
                 | Object_Text \<Rightarrow> if mo_single_anchor object then 4 else 5)
       in Some (Inr (st1\<lparr>file_objects := file_objects st1
                           @ [\<lparr>xo_symbol = index_to_use, xo_type = ty\<rparr>]\<rparr>)))"

primrec doExport_object_indices ::
  "MapObject \<Rightarrow> 16 word list \<Rightarrow> Exporter \<Rightarrow> Exporter run" where
  "doExport_object_indices object [] st = Some (Inr st)"
| "doExport_object_indices object (it # its) st =
     bindR (doExport_object_index object it st) (doExport_object_indices object its)"

text \<open>
  The body of the loop over the objects: an object whose symbol has no index set gets the
  set of -1.
\<close>

definition doExport_object :: "MapObject \<Rightarrow> Exporter \<Rightarrow> Exporter run" where
  "doExport_object object st =
     (let index_set = (case export_symbol_index st (mo_symbol object) of
                         Some ns \<Rightarrow> ns | None \<Rightarrow> set_insert (- 1) [])
      in doExport_object_indices object index_set st)"

primrec doExport_symbols :: "ExportEnv \<Rightarrow> Map \<Rightarrow> nat list \<Rightarrow> Exporter \<Rightarrow> Exporter run" where
  "doExport_symbols env m [] st = Some (Inr st)"
| "doExport_symbols env m (i # is) st =
     bindR (doExport_symbol env m i st) (doExport_symbols env m is)"

primrec doExport_objects :: "MapObject list \<Rightarrow> Exporter \<Rightarrow> Exporter run" where
  "doExport_objects [] st = Some (Inr st)"
| "doExport_objects (object # objects) st =
     bindR (doExport_object object st) (doExport_objects objects)"

text \<open>
  \<open>doExport\<close>, from the check of the number of colors to the end of the loop over the
  objects, for an exporter in its state after construction.
\<close>

definition Exporter_new :: Exporter where
  "Exporter_new = \<lparr>symbol_numbers = {}, file_symbols = [], file_objects = [],
     export_symbol_index = Map.empty, text_format_map = Map.empty, export_warnings = []\<rparr>"

definition doExport :: "ExportEnv \<Rightarrow> Map \<Rightarrow> Exporter run" where
  "doExport env m =
     (if map_num_colors m > 256 then Some (Inl FormatException)
      else bindR (doExport_symbols env m [0..<length (map_symbols m)] Exporter_new) (\<lambda>st1.
             doExport_objects (map_objects m)
               (foldl (\<lambda>st i. doExport_combined env m i st) st1 [0..<length (map_symbols m)])))"

subsection \<open>Partitions of a coordinate sequence\<close>

text \<open>
  Following the spec's words: the point sequence is partitioned at hole-flagged points, and
  the end of the sequence also ends a partition. \<open>is_part cs s e\<close> holds when the points
  from index \<open>s\<close> to index \<open>e\<close> are one partition of \<open>cs\<close>. \<open>part_start cs k\<close> is the
  first index of the partition that holds the index \<open>k\<close>, and \<open>closed_upto cs k j\<close> is the
  point of index \<open>j\<close> once the partition ends below \<open>k\<close> have been marked.
\<close>

definition is_part :: "MapCoord list \<Rightarrow> nat \<Rightarrow> nat \<Rightarrow> bool" where
  "is_part cs s e =
     (s \<le> e \<and> e < length cs
      \<and> (s = 0 \<or> holePoint (cs ! (s - 1)))
      \<and> (\<forall>m \<in> {s..<e}. \<not> holePoint (cs ! m))
      \<and> (holePoint (cs ! e) \<or> Suc e = length cs))"

primrec part_start :: "MapCoord list \<Rightarrow> nat \<Rightarrow> nat" where
  "part_start cs 0 = 0"
| "part_start cs (Suc k) = (if holePoint (cs ! k) then Suc k else part_start cs k)"

definition closed_upto :: "MapCoord list \<Rightarrow> nat \<Rightarrow> nat \<Rightarrow> MapCoord" where
  "closed_upto cs k j =
     (if j < k \<and> (holePoint (cs ! j) \<or> Suc j = length cs)
         \<and> isPositionEqualTo (cs ! j) (cs ! part_start cs j)
      then (cs ! j)\<lparr>closePoint := True\<rparr> else cs ! j)"

subsection \<open>Drawable elements\<close>

text \<open>
  Following the spec's words: an element record is drawable when something is drawn for
  it, that is a dot with a positive radius, a circle with a positive line width and a
  positive inner radius, a line or an area. Nothing is drawn for a dot or circle without
  these sizes or for a record of another type.
\<close>

definition drawable :: "OCADSymbolElement \<Rightarrow> bool" where
  "drawable elt =
     (e_type elt = OCAD_DOT_ELEMENT \<and> 0 < convertSize_int (e_diameter elt) sdiv 2
      \<or> e_type elt = OCAD_CIRCLE_ELEMENT \<and> 0 < convertSize_int (e_width elt)
          \<and> 0 < convertSize_int (e_diameter elt) sdiv 2 - convertSize_int (e_width elt)
      \<or> e_type elt = OCAD_LINE_ELEMENT \<or> e_type elt = OCAD_AREA_ELEMENT)"

subsection \<open>Patterns that decode\<close>

text \<open>
  The records of a pattern that the loop of \<open>importPattern\<close> reads between the slot \<open>p\<close>
  and the end slot \<open>pend\<close>. \<open>element_decodes mem p\<close>: the record at the slot \<open>p\<close>, if it
  is a line or an area element, has a point count that is not negative, and an area element
  with points has no hole flag on its first point. \<open>pattern_decodes mem pend p\<close>: the walk
  from the slot \<open>p\<close>, each record followed by the one \<open>2 + npts\<close> slots further, reaches the
  end slot after finitely many records, all of which decode. \<open>line_patterns_decode\<close>:
  this holds for the four patterns that \<open>importLineSymbol\<close> decodes, at the slots where
  it reads them.
\<close>

definition element_decodes :: "pattern_memory \<Rightarrow> int \<Rightarrow> bool" where
  "element_decodes mem p =
     ((e_type (elt_at mem p) = OCAD_LINE_ELEMENT \<longrightarrow> 0 \<le> e_npts (elt_at mem p))
      \<and> (e_type (elt_at mem p) = OCAD_AREA_ELEMENT \<longrightarrow>
           0 \<le> e_npts (elt_at mem p)
           \<and> (0 < e_npts (elt_at mem p) \<longrightarrow> \<not> py_hole (pt_at mem (p + 2)))))"

inductive pattern_decodes :: "pattern_memory \<Rightarrow> int \<Rightarrow> int \<Rightarrow> bool" where
  pattern_end: "\<not> p < pend \<Longrightarrow> pattern_decodes mem pend p"
| pattern_record: "p < pend \<Longrightarrow> element_decodes mem p
     \<Longrightarrow> pattern_decodes mem pend (p + (2 + e_npts (elt_at mem p)))
     \<Longrightarrow> pattern_decodes mem pend p"


subsection \<open>Unique symbol numbers\<close>

text \<open>
  Following the spec's words: no two symbol records emitted so far share a number, and
  every number of an emitted record is registered in the set of the assigned numbers.
\<close>

definition numbers_unique :: "Exporter \<Rightarrow> bool" where
  "numbers_unique st =
     (distinct (map x_number (file_symbols st))
      \<and> set (map x_number (file_symbols st)) \<subseteq> symbol_numbers st)"

subsection \<open>Example inputs\<close>

definition example_coord :: MapCoord where
  "example_coord = \<lparr>rawX = 0, rawY = 0, curveStart = False, closePoint = False,
     holePoint = False, dashPoint = False\<rparr>"

definition example_env :: Env where
  "example_env = \<lparr>MapCoord_new = example_coord,
     PointSymbol_init = PointSymbol.fields False 1000 None 0 None [],
     LineSymbol_init = LineSymbol.fields 0 None 0 FlatCap MiterJoin 1000 False 4000 0 4000 1000 1
       500 False None 1 0 None None None 0 0 True False None 0 0 False 2000 1000,
     Object_coords_new = (\<lambda>ty. case ty of Object_Point \<Rightarrow> [example_coord] | _ \<Rightarrow> []),
     Object_rotation_new = 0,
     isSymmetrical = (\<lambda>ps. elements ps = []),
     toUnicode = map ucast,
     importRectangleObject = (\<lambda>ob. ob_npts ob = 4),
     importTextObject = (\<lambda>ob. \<lparr>obj_type = Object_Text, obj_symbol = Some (Indexed (ob_symbol ob)),
       coords = [example_coord], rotation = 0\<rparr>)\<rparr>"

definition example_importer :: Importer where
  "example_importer = \<lparr>color_index = [0 \<mapsto> 10, 1 \<mapsto> 11],
     symbol_index = Map.empty, rectangle_info = {},
     undefined_point = PointSymbol_new example_env,
     undefined_line = LineSymbol_new example_env,
     warnings = [], offset_x = 0, offset_y = 0\<rparr>"

definition example_pt :: "int \<Rightarrow> int \<Rightarrow> bool \<Rightarrow> OCADPoint" where
  "example_pt x y h = \<lparr>pt_x = x, pt_y = y, px_ctl1 = False, py_dash = False, py_corner = False,
     py_hole = h\<rparr>"

definition example_path :: "symbol_ref Object" where
  "example_path = \<lparr>obj_type = Object_Path, obj_symbol = Some UndefinedLine, coords = [],
     rotation = 0\<rparr>"

definition example_pts :: "nat \<Rightarrow> OCADPoint" where
  "example_pts i = [example_pt 0 0 False, example_pt 5 0 False, example_pt 0 0 True,
     example_pt 7 7 False, example_pt 7 8 False] ! i"

definition example_coords :: "MapCoord list" where
  "example_coords =
     [\<lparr>rawX = 0, rawY = 0, curveStart = False, closePoint = False, holePoint = False,
         dashPoint = False\<rparr>,
      \<lparr>rawX = 50, rawY = 0, curveStart = False, closePoint = False, holePoint = False,
         dashPoint = False\<rparr>,
      \<lparr>rawX = 0, rawY = 0, curveStart = False, closePoint = True, holePoint = True,
         dashPoint = False\<rparr>,
      \<lparr>rawX = 70, rawY = - 70, curveStart = False, closePoint = False, holePoint = False,
         dashPoint = False\<rparr>,
      \<lparr>rawX = 70, rawY = - 80, curveStart = False, closePoint = False, holePoint = False,
         dashPoint = False\<rparr>]"

definition example_object :: OCADObject where
  "example_object = \<lparr>ob_symbol = 101, ob_type = 1, ob_angle = 0, ob_npts = 3,
     ob_pts = (\<lambda>i. [example_pt 12 34 False, example_pt 5 6 True, example_pt 7 8 False] ! i)\<rparr>"

text \<open>
  A pattern memory that holds dot elements of diameter 50 in the registered color 1, each
  with one coordinate: an element takes three slots.
\<close>

definition example_dots :: pattern_memory where
  "example_dots = \<lparr>elt_at = (\<lambda>p. \<lparr>e_type = 4, e_flags = 0, e_color = 1, e_width = 0,
       e_diameter = 50, e_npts = 1\<rparr>),
     pt_at = (\<lambda>p. example_pt 0 0 False)\<rparr>"

text \<open>
  A pattern memory with the dot of diameter 50 at slot 0 and, from slot 3 on, circle
  records of diameter 30 with the line width 0, for which nothing is drawn.
\<close>

definition example_dot_blank :: pattern_memory where
  "example_dot_blank = \<lparr>elt_at = (\<lambda>p. if p = 0
       then \<lparr>e_type = 4, e_flags = 0, e_color = 1, e_width = 0, e_diameter = 50, e_npts = 1\<rparr>
       else \<lparr>e_type = 3, e_flags = 0, e_color = 1, e_width = 0, e_diameter = 30, e_npts = 1\<rparr>),
     pt_at = (\<lambda>p. example_pt 0 0 False)\<rparr>"

text \<open>The same with circle elements of diameter 30 and line width 5.\<close>

definition example_circles :: pattern_memory where
  "example_circles = \<lparr>elt_at = (\<lambda>p. \<lparr>e_type = 3, e_flags = 0, e_color = 1, e_width = 5,
       e_diameter = 30, e_npts = 1\<rparr>),
     pt_at = (\<lambda>p. example_pt 0 0 False)\<rparr>"





text \<open>
  For the exporter: a codec that keeps the low byte of a character, a text of 300 letters
  a, and a map of two point symbols numbered 1.0, a text symbol numbered 1.1 and three text
  objects of this text symbol, aligned left, right and left.
\<close>

definition example_export_env :: ExportEnv where
  "example_export_env = \<lparr>fromUnicode = map ucast, toPlainText = (\<lambda>t. t),
     determineSymbolUseClosure = (\<lambda>symbols i j. j = i)\<rparr>"

definition example_text :: QString where
  "example_text = replicate 300 97"

definition example_symbol :: "int \<Rightarrow> Symbol" where
  "example_symbol n1 = Symbol_new\<lparr>name := [80], number0 := 1, number1 := n1\<rparr>"

definition example_text_object :: "HorizontalAlignment \<Rightarrow> MapObject" where
  "example_text_object h = \<lparr>mo_type = Object_Text, mo_symbol = 2, mo_halign = h,
     mo_single_anchor = True\<rparr>"

definition example_map :: Map where
  "example_map = \<lparr>map_symbols = [Symbol_Area (example_symbol 0), Symbol_Area (example_symbol 0),
       Symbol_Text (example_symbol 1)],
     map_objects = [example_text_object AlignLeft, example_text_object AlignRight,
       example_text_object AlignLeft],
     map_num_colors = 2\<rparr>"

text \<open>The exporter after the loop over the symbols of this map.\<close>

definition example_exporter :: Exporter where
  "example_exporter =
     (case doExport_symbols example_export_env example_map [0, 1, 2] Exporter_new of
        Some (Inr st) \<Rightarrow> st | _ \<Rightarrow> Exporter_new)"

section \<open>Properties\<close>

subsection \<open>Lemmas on sizes\<close>

lemma sint_import_convertSize: "sint (import_convertSize y) = sint y * 10"
proof -
  have lo: "- (2 ^ 31) \<le> sint y" and hi: "sint y < 2 ^ 31"
    using sint_range_size [of y] by (simp_all add: word_size)
  have "sint (import_convertSize y) = signed_take_bit 63 (sint y * 10)"
    unfolding import_convertSize_def
    by (simp add: sint_word_ariths signed_take_bit_mult sint_up_scast is_up)
  also have "\<dots> = sint y * 10"
    by (rule signed_take_bit_int_eq_self) (use lo hi in simp_all)
  finally show ?thesis .
qed

lemma sdiv_mult_ten: "(k * 10) sdiv 10 = (k :: int)"
  by (simp add: signed_divide_int_def sgn_mult abs_mult sgn_if)

lemma export_import_convertSize: "export_convertSize (import_convertSize y) = y"
  by (simp add: export_convertSize_def sint_import_convertSize sdiv_mult_ten)

lemma import_export_convertSize:
  assumes d: "10 dvd sint x"
    and lo: "- (2 ^ 31) \<le> sint x sdiv 10" and hi: "sint x sdiv 10 < 2 ^ 31"
  shows "import_convertSize (export_convertSize x) = x"
proof -
  obtain k where k: "sint x = 10 * k"
    using d by (auto simp: dvd_def)
  have q: "sint x sdiv 10 = k"
    using sdiv_mult_ten [of k] by (simp add: k mult.commute)
  have "sint (word_of_int k :: 32 word) = signed_take_bit 31 k"
    by (simp add: sint_sbintrunc')
  also have "\<dots> = k"
    by (rule signed_take_bit_int_eq_self) (use lo hi in \<open>simp_all add: q\<close>)
  finally have "scast (word_of_int k :: 32 word) = (word_of_int k :: 64 word)"
    by (simp add: scast_eq)
  then have "import_convertSize (export_convertSize x) = word_of_int (k * 10)"
    by (simp add: import_convertSize_def export_convertSize_def q)
  also have "\<dots> = word_of_int (sint x)"
    by (simp add: k mult.commute)
  also have "\<dots> = x"
    by simp
  finally show ?thesis .
qed

subsection \<open>Lemmas on rotations\<close>

text \<open>
  For evaluation, the exponent \<open>\<lfloor>log 2 \<bar>x\<bar>\<rfloor>\<close> is computed from the bit length of an
  integer: of the integer part of \<open>\<bar>x\<bar>\<close> when that is at least 1, and of the integer
  below the reciprocal rounded up otherwise.
\<close>

lemma floor_log2_ge1:
  assumes "1 \<le> y"
  shows "\<lfloor>log 2 y\<rfloor> = int (floorlog 2 (nat \<lfloor>y\<rfloor>)) - 1"
proof -
  define n where "n = nat \<lfloor>y\<rfloor>"
  from assms have n: "1 \<le> n" "real n \<le> y" "y < real n + 1"
    unfolding n_def by linarith+
  have "\<lfloor>log (real 2) (real n + (y - real n))\<rfloor> = \<lfloor>log (real 2) (real n)\<rfloor>"
    using n by (intro floor_log_add_eqI) simp_all
  then have e: "\<lfloor>log 2 y\<rfloor> = \<lfloor>log 2 (real n)\<rfloor>"
    by simp
  from n(1) have "0 \<le> log 2 (real n)"
    by simp
  then have "0 \<le> \<lfloor>log 2 (real n)\<rfloor>"
    by simp
  with n(1) have "int (floorlog 2 n) = \<lfloor>log 2 (real n)\<rfloor> + 1"
    by (simp add: floorlog_def)
  with e show ?thesis
    by (simp add: n_def)
qed

lemma floor_log2_lt1:
  assumes "0 < y" and "y < 1"
  shows "\<lfloor>log 2 y\<rfloor> = - int (floorlog 2 (nat \<lceil>1 / y\<rceil> - 1))"
proof -
  define z where "z = 1 / y"
  define m where "m = nat \<lceil>z\<rceil>"
  define w where "w = floorlog 2 (m - 1)"
  from assms have z: "1 < z"
    by (simp add: z_def)
  then have m: "2 \<le> m" "z \<le> real m" "real m - 1 < z"
    unfolding m_def by linarith+
  then have "0 < m - 1"
    by simp
  from floorlog_bounds [OF this, of 2] have b: "2 ^ (w - 1) \<le> m - 1" "m - 1 < 2 ^ w"
    by (simp_all add: w_def)
  from b(2) have w0: "0 < w"
    using \<open>0 < m - 1\<close> by (cases w) simp_all
  have "real (2 ^ (w - 1)) \<le> real m - 1"
  proof -
    from b(1) have "real (2 ^ (w - 1)) \<le> real (m - 1)"
      by (simp only: of_nat_le_iff)
    also from m(1) have "real (m - 1) = real m - 1"
      by (simp add: of_nat_diff)
    finally show ?thesis .
  qed
  with m(3) have lo: "2 ^ (w - 1) < z"
    by simp
  from b(2) m have "m \<le> 2 ^ w"
    by simp
  then have "real m \<le> real (2 ^ w)"
    by (rule of_nat_mono)
  then have "real m \<le> 2 ^ w"
    by simp
  with m(2) have hi: "z \<le> 2 ^ w"
    by linarith
  from lo z have "log 2 (2 ^ (w - 1)) < log 2 z"
    by (subst log_less_cancel_iff) simp_all
  then have l1: "real (w - 1) < log 2 z"
    by (simp add: log_nat_power)
  from hi z have "log 2 z \<le> log 2 (2 ^ w)"
    by (subst log_le_cancel_iff) simp_all
  then have l2: "log 2 z \<le> real w"
    by (simp add: log_nat_power)
  from l1 l2 w0 have "\<lceil>log 2 z\<rceil> = int w"
    by (intro ceiling_unique) (simp_all add: of_nat_diff)
  moreover from assms have "log 2 y = - log 2 z"
    by (simp add: z_def log_divide)
  ultimately show ?thesis
    by (simp add: w_def m_def z_def ceiling_def)
qed

lemma powr_int_code:
  "(2 :: real) powr real_of_int e = (if 0 \<le> e then 2 ^ nat e else 1 / 2 ^ nat (- e))"
proof (cases "0 \<le> e")
  case True
  then have "real_of_int e = real (nat e)"
    by simp
  then show ?thesis
    using True by (simp only: powr_realpow [symmetric] if_True)
next
  case False
  then have r: "real_of_int e = - real (nat (- e))"
    by simp
  have "(2 :: real) powr real_of_int e = 2 powr (- real (nat (- e)))"
    by (simp only: r)
  also have "\<dots> = 1 / 2 powr real (nat (- e))"
    by (simp only: powr_minus_divide)
  also have "\<dots> = 1 / 2 ^ nat (- e)"
    by (simp only: powr_realpow zero_less_numeral)
  finally show ?thesis
    using False by simp
qed

lemma round_to_code [code]:
  "round_to p x =
     (if x = 0 then 0
      else (let l = (if 1 \<le> \<bar>x\<bar> then bitlen \<lfloor>\<bar>x\<bar>\<rfloor> - 1
                     else - bitlen (\<lceil>1 / \<bar>x\<bar>\<rceil> - 1));
                e = l - (int p - 1);
                u = (if 0 \<le> e then 2 ^ nat e else 1 / 2 ^ nat (- e))
            in of_int (round_even (x / u)) * u))"
proof (cases "x = 0")
  case True
  then show ?thesis
    by (simp add: round_to_def)
next
  case False
  have "nat (\<lceil>1 / \<bar>x\<bar>\<rceil> - 1) = nat \<lceil>1 / \<bar>x\<bar>\<rceil> - 1"
    by simp
  then have "\<lfloor>log 2 \<bar>x\<bar>\<rfloor> = (if 1 \<le> \<bar>x\<bar> then bitlen \<lfloor>\<bar>x\<bar>\<rfloor> - 1
                     else - bitlen (\<lceil>1 / \<bar>x\<bar>\<rceil> - 1))"
    using False floor_log2_ge1 [of "\<bar>x\<bar>"] floor_log2_lt1 [of "\<bar>x\<bar>"]
    by (simp add: bitlen_def)
  with False show ?thesis
    unfolding round_to_def Let_def powr_int_code by simp
qed

lemma round_even_error: "\<bar>real_of_int (round_even x) - x\<bar> \<le> 1 / 2"
proof -
  have "real_of_int \<lfloor>x\<rfloor> \<le> x" and "x < real_of_int \<lfloor>x\<rfloor> + 1"
    by linarith+
  then show ?thesis
    by (auto simp: round_even_def)
qed

lemma round_to_error:
  "\<bar>round_to p x - x\<bar> \<le> \<bar>x\<bar> / 2 ^ p"
proof (cases "x = 0")
  case True
  then show ?thesis
    by (simp add: round_to_def)
next
  case False
  define l where "l = \<lfloor>log 2 \<bar>x\<bar>\<rfloor>"
  define e where "e = l - (int p - 1)"
  define u where "u = 2 powr real_of_int e"
  have u: "0 < u"
    by (simp add: u_def)
  have r: "round_to p x = of_int (round_even (x / u)) * u"
    using False by (simp add: round_to_def Let_def l_def e_def u_def)
  have "real_of_int l \<le> log 2 \<bar>x\<bar>"
    by (simp add: l_def)
  then have "2 powr real_of_int l \<le> 2 powr log 2 \<bar>x\<bar>"
    by (simp add: powr_le_cancel_iff)
  with False have l: "2 powr real_of_int l \<le> \<bar>x\<bar>"
    by simp
  have "real_of_int e = real_of_int l - real p + 1"
    by (simp add: e_def)
  then have "u = 2 powr real_of_int l / 2 powr real p * 2"
    by (simp add: u_def powr_diff powr_add)
  then have ul: "u / 2 = 2 powr real_of_int l / 2 ^ p"
    by (simp add: powr_realpow)
  have "round_to p x - x = (of_int (round_even (x / u)) - x / u) * u"
    using u by (simp add: r algebra_simps)
  then have "\<bar>round_to p x - x\<bar> = \<bar>of_int (round_even (x / u)) - x / u\<bar> * u"
    using u by (simp add: abs_mult)
  also have "\<dots> \<le> 1 / 2 * u"
    using u round_even_error [of "x / u"] by (intro mult_right_mono) simp_all
  also have "\<dots> = 2 powr real_of_int l / 2 ^ p"
    using ul by simp
  also have "\<dots> \<le> \<bar>x\<bar> / 2 ^ p"
    using l by (simp add: divide_right_mono)
  finally show ?thesis .
qed

lemma round_to_abs_le: "\<bar>round_to p x\<bar> \<le> 2 * \<bar>x\<bar>"
proof -
  have "(1 :: real) \<le> 2 ^ p"
    by simp
  then have "\<bar>x\<bar> / 2 ^ p \<le> \<bar>x\<bar>"
    by (simp add: divide_le_eq mult_le_cancel_left1)
  with round_to_error [of p x] show ?thesis
    by linarith
qed

lemma round_to_coarse:
  assumes "0 \<le> l" and "l \<le> x" and "x \<le> u" and "10 \<le> p"
  shows "l * (999 / 1000) \<le> round_to p x" and "round_to p x \<le> u * (1001 / 1000)"
proof -
  have "(2 :: real) ^ 10 \<le> 2 ^ p"
    using assms(4) by (intro power_increasing) simp_all
  then have "(1000 :: real) \<le> 2 ^ p"
    by simp
  moreover from assms have x0: "0 \<le> x"
    by simp
  ultimately have "x / 2 ^ p \<le> x / 1000"
    by (intro frac_le) simp_all
  with x0 have "\<bar>x\<bar> / 2 ^ p \<le> x / 1000"
    by simp
  with round_to_error [of p x] have "x - x / 1000 \<le> round_to p x"
    and "round_to p x \<le> x + x / 1000"
    by linarith+
  with assms show "l * (999 / 1000) \<le> round_to p x" and "round_to p x \<le> u * (1001 / 1000)"
    by simp_all
qed

lemma M_PI_bounds: "3137 / 1000 \<le> M_PI" "M_PI \<le> 3146 / 1000"
proof -
  let ?x = "314159265358979323846 / 100000000000000000000 :: real"
  have "(0 :: real) \<le> 3141 / 1000" "3141 / 1000 \<le> ?x" "?x \<le> 3142 / 1000"
    by simp_all
  from round_to_coarse [OF this, of 53]
  have "3141 / 1000 * (999 / 1000) \<le> M_PI" and "M_PI \<le> 3142 / 1000 * (1001 / 1000)"
    unfolding M_PI_def to_double_def by simp_all
  then show "3137 / 1000 \<le> M_PI" "M_PI \<le> 3146 / 1000"
    by simp_all
qed

lemma two_M_PI_bounds: "6 \<le> to_double (2 * M_PI)" "to_double (2 * M_PI) \<le> 7"
proof -
  from M_PI_bounds have "(0 :: real) \<le> 6274 / 1000" "6274 / 1000 \<le> 2 * M_PI"
    "2 * M_PI \<le> 6292 / 1000"
    by simp_all
  from round_to_coarse [OF this, of 53]
  show "6 \<le> to_double (2 * M_PI)" "to_double (2 * M_PI) \<le> 7"
    by (simp_all add: to_double_def)
qed

lemma convertRotation_loop_nonneg:
  "0 \<le> a \<Longrightarrow> convertRotation_loop a = Some a"
  by (subst convertRotation_loop.simps) simp

lemma convertRotation_loop_step:
  assumes "- (2 ^ 29) \<le> a" and "a < 0"
  shows "a + 5 \<le> to_double (a + to_double (2 * M_PI))"
    and "to_double (a + to_double (2 * M_PI)) \<le> a + 8"
proof -
  let ?y = "a + to_double (2 * M_PI)"
  from assms two_M_PI_bounds have "\<bar>?y\<bar> \<le> 2 ^ 29"
    by simp
  then have "\<bar>?y\<bar> / 2 ^ 53 \<le> 2 ^ 29 / 2 ^ 53"
    by (simp add: divide_right_mono)
  also have "\<dots> \<le> (1 :: real)"
    by simp
  finally have "\<bar>?y\<bar> / 2 ^ 53 \<le> 1" .
  with round_to_error [of 53 ?y] have "\<bar>to_double ?y - ?y\<bar> \<le> 1"
    by (simp add: to_double_def)
  with two_M_PI_bounds show "a + 5 \<le> to_double ?y" and "to_double ?y \<le> a + 8"
    by linarith+
qed

lemma convertRotation_loop_total:
  assumes "- (2 ^ 29) \<le> a"
  shows "\<exists>x. convertRotation_loop a = Some x \<and> 0 \<le> x \<and> (0 \<le> a \<longrightarrow> x = a)
    \<and> (a < 0 \<longrightarrow> x < 8)"
  using assms
proof (induction "nat \<lceil>- a\<rceil>" arbitrary: a rule: less_induct)
  case less
  show ?case
  proof (cases "a < 0")
    case False
    then show ?thesis
      by (simp add: convertRotation_loop_nonneg)
  next
    case True
    define b where "b = to_double (a + to_double (2 * M_PI))"
    from convertRotation_loop_step [OF less.prems True]
    have b: "a + 5 \<le> b" "b \<le> a + 8"
      by (simp_all add: b_def)
    from b True have "nat \<lceil>- b\<rceil> < nat \<lceil>- a\<rceil>"
      by linarith
    moreover from b less.prems have "- (2 ^ 29) \<le> b"
      by simp
    ultimately obtain x where x: "convertRotation_loop b = Some x" "0 \<le> x"
      "0 \<le> b \<longrightarrow> x = b" "b < 0 \<longrightarrow> x < 8"
      using less.hyps [of b] by blast
    from b True x have "x < 8"
      by (cases "b < 0") simp_all
    moreover from True x(1) have "convertRotation_loop a = Some x"
      by (subst convertRotation_loop.simps) (simp add: b_def)
    ultimately show ?thesis
      using x(2) True by simp
  qed
qed

lemma convertRotation_start:
  "\<bar>to_double (to_double (M_PI / 180)
      * to_float (to_float (1 / 10) * to_float (real_of_int (sint (angle :: 32 word)))))\<bar>
    \<le> 2 ^ 29"
proof -
  define n where "n = real_of_int (sint angle)"
  have "- (2 ^ 31) \<le> sint angle" "sint angle \<le> 2 ^ 31"
    using sint_ge [of angle] sint_lt [of angle] by simp_all
  then have "real_of_int (- (2 ^ 31)) \<le> real_of_int (sint angle)"
    and "real_of_int (sint angle) \<le> real_of_int (2 ^ 31)"
    by (simp_all only: of_int_le_iff)
  then have n: "\<bar>n\<bar> \<le> 2 ^ 31"
    unfolding n_def by (simp add: abs_le_iff)
  have x1: "\<bar>to_float n\<bar> \<le> 2 ^ 32"
    using round_to_abs_le [of 24 n] n by (simp add: to_float_def)
  have c: "\<bar>to_float (1 / 10)\<bar> \<le> 1 / 5"
    using round_to_abs_le [of 24 "1 / 10"] by (simp add: to_float_def)
  have "\<bar>to_float (1 / 10) * to_float n\<bar> \<le> 1 / 5 * 2 ^ 32"
    unfolding abs_mult using c x1 by (intro mult_mono) simp_all
  with round_to_abs_le [of 24 "to_float (1 / 10) * to_float n"]
  have x2: "\<bar>to_float (to_float (1 / 10) * to_float n)\<bar> \<le> 2 / 5 * 2 ^ 32"
    by (simp add: to_float_def)
  from M_PI_bounds have "\<bar>M_PI / 180\<bar> \<le> 1 / 50"
    by (simp add: abs_le_iff)
  with round_to_abs_le [of 53 "M_PI / 180"] have k: "\<bar>to_double (M_PI / 180)\<bar> \<le> 1 / 25"
    by (simp add: to_double_def)
  have "\<bar>to_double (M_PI / 180) * to_float (to_float (1 / 10) * to_float n)\<bar>
      \<le> 1 / 25 * (2 / 5 * 2 ^ 32)"
    unfolding abs_mult using k x2 by (intro mult_mono) simp_all
  with round_to_abs_le
    [of 53 "to_double (M_PI / 180) * to_float (to_float (1 / 10) * to_float n)"]
  have "\<bar>to_double (to_double (M_PI / 180) * to_float (to_float (1 / 10) * to_float n))\<bar>
      \<le> 2 * (1 / 25 * (2 / 5 * 2 ^ 32))"
    by (simp add: to_double_def)
  then show ?thesis
    unfolding n_def by simp
qed

lemma import_convertRotation_total:
  "\<exists>x. import_convertRotation angle = Some x \<and> 0 \<le> x"
proof -
  let ?a = "to_double (to_double (M_PI / 180)
      * to_float (to_float (1 / 10) * to_float (real_of_int (sint angle))))"
  from convertRotation_start [of angle] have "- (2 ^ 29) \<le> ?a"
    by (simp add: abs_le_iff)
  from convertRotation_loop_total [OF this]
  obtain x where x: "convertRotation_loop ?a = Some x" "0 \<le> x"
    by blast
  from round_to_coarse(1) [of 0 x x 24] x(2) have "0 \<le> to_float x"
    by (simp add: to_float_def)
  with x(1) show ?thesis
    by (simp add: import_convertRotation_def)
qed

subsection \<open>Claims\<close>

text \<open>
  C1. The size conversion round-trips exactly. Import multiplies the legacy 32 bit value by
  exactly 10 (no wrap-around in 64 bits), and exporting the imported value gives the legacy
  value back, for every legacy value \<open>y\<close>. For a modern 64 bit value \<open>x\<close> that is a
  multiple of 10 and whose tenth is representable as a legacy 32 bit value, importing the
  exported value gives \<open>x\<close> back.
\<close>

theorem convertSize_roundtrip:
  "sint (import_convertSize y) = sint y * 10
   \<and> export_convertSize (import_convertSize y) = y
   \<and> (10 dvd sint x \<and> - (2 ^ 31) \<le> sint x sdiv 10 \<and> sint x sdiv 10 < 2 ^ 31
        \<longrightarrow> import_convertSize (export_convertSize x) = x)"
  by (simp add: sint_import_convertSize export_import_convertSize import_export_convertSize)

theorem convertSize_roundtrip_witness:
  "(10 dvd sint (21474836470 :: 64 word)
     \<and> - (2 ^ 31) \<le> sint (21474836470 :: 64 word) sdiv 10
     \<and> sint (21474836470 :: 64 word) sdiv 10 < 2 ^ 31)
   \<and> import_convertSize (export_convertSize 21474836470) = 21474836470
   \<and> export_convertSize (import_convertSize (- 5)) = - 5"
  using convertSize_roundtrip [of "- 5" 21474836470]
  by (simp add: signed_divide_int_def)

text \<open>
  C2. The claim has every integer input decoded to an angle in the half-open interval from
  0 to \<open>2 * pi\<close>, and the comment in the source says that the angle is kept between 0
  and pi. The code only adds \<open>2 * M_PI\<close> while the angle is negative and does nothing about
  an angle of a full turn or more: the input 7200, two full turns, is decoded to the
  \<open>float\<close> 13176795 / 1048576, about 12.566371, which is more than \<open>2 * pi\<close>.
\<close>

theorem convertRotation_full_turns:
  "import_convertRotation 7200 = Some (13176795 / 1048576)
   \<and> 2 * pi < 13176795 / 1048576"
proof -
  have "import_convertRotation 7200 = Some (13176795 / 1048576)"
    by code_simp
  moreover from pi_less_4 have "2 * pi < 13176795 / 1048576"
    by simp
  ultimately show ?thesis
    by simp
qed

subsection \<open>Lemmas on fillPathCoords\<close>

lemma part_start_le: "part_start cs k \<le> k"
  by (induction k) auto

lemma is_part_start:
  assumes "s \<le> e" "s = 0 \<or> holePoint (cs ! (s - 1))" "\<forall>m \<in> {s..<e}. \<not> holePoint (cs ! m)"
  shows "part_start cs e = s"
  using assms
proof (induction e)
  case 0
  then show ?case by simp
next
  case (Suc e)
  show ?case
  proof (cases "s = Suc e")
    case True
    with Suc.prems(2) show ?thesis by simp
  next
    case False
    with Suc.prems have le: "s \<le> e" and nh: "\<not> holePoint (cs ! e)" by auto
    from Suc.prems have "\<forall>m \<in> {s..<e}. \<not> holePoint (cs ! m)" by auto
    with Suc.IH le Suc.prems(2) have "part_start cs e = s" by blast
    with nh show ?thesis by simp
  qed
qed

lemma closeParts_invariant:
  "k \<le> length cs \<Longrightarrow>
   (k < length cs \<longrightarrow> fst (foldl closePart_step (0, cs) [0..<k]) = part_start cs k)
   \<and> length (snd (foldl closePart_step (0, cs) [0..<k])) = length cs
   \<and> (\<forall>j < length cs. snd (foldl closePart_step (0, cs) [0..<k]) ! j = closed_upto cs k j)"
proof (induction k)
  case 0
  then show ?case by (simp add: closed_upto_def)
next
  case (Suc k)
  let ?S = "foldl closePart_step (0, cs) [0..<k]"
  from Suc.prems have k: "k < length cs" by simp
  with Suc.IH have st: "fst ?S = part_start cs k"
    and len: "length (snd ?S) = length cs"
    and nth: "\<forall>j < length cs. snd ?S ! j = closed_upto cs k j" by simp_all
  have ps: "part_start cs k < length cs" using part_start_le [of cs k] k by simp
  have pe: "isPositionEqualTo (cs ! k) (snd ?S ! part_start cs k)
            = isPositionEqualTo (cs ! k) (cs ! part_start cs k)"
    using nth k ps by (simp add: closed_upto_def isPositionEqualTo_def)
  have sk: "snd ?S ! k = cs ! k" using nth k by (simp add: closed_upto_def)
  have step: "foldl closePart_step (0, cs) [0..<Suc k] = closePart_step ?S k" by simp
  show ?case
  proof (cases "\<not> holePoint (cs ! k) \<and> Suc k < length cs")
    case True
    then have eq: "closePart_step ?S k = ?S"
      using sk len by (simp add: closePart_step_def Let_def)
    have "\<forall>j < length cs. closed_upto cs (Suc k) j = closed_upto cs k j"
      using True by (auto simp: closed_upto_def less_Suc_eq)
    with True st len nth show ?thesis unfolding step eq by simp
  next
    case False
    then have cond: "holePoint (cs ! k) \<or> \<not> int k < int (length cs) - 1"
      by auto
    have eq: "closePart_step ?S k = (Suc k,
        if isPositionEqualTo (cs ! k) (cs ! part_start cs k)
        then (snd ?S)[k := (cs ! k)\<lparr>closePoint := True\<rparr>] else snd ?S)"
      using cond by (auto simp: closePart_step_def Let_def sk len st pe)
    have a: "Suc k < length cs \<longrightarrow> part_start cs (Suc k) = Suc k"
      using False by auto
    have b: "\<forall>j < length cs. (if isPositionEqualTo (cs ! k) (cs ! part_start cs k)
        then (snd ?S)[k := (cs ! k)\<lparr>closePoint := True\<rparr>] else snd ?S) ! j
          = closed_upto cs (Suc k) j"
    proof (intro allI impI)
      fix j assume j: "j < length cs"
      show "(if isPositionEqualTo (cs ! k) (cs ! part_start cs k)
        then (snd ?S)[k := (cs ! k)\<lparr>closePoint := True\<rparr>] else snd ?S) ! j
          = closed_upto cs (Suc k) j"
      proof (cases "j = k")
        case True
        with False k len sk show ?thesis by (auto simp: closed_upto_def)
      next
        case False
        with j nth len show ?thesis by (auto simp: closed_upto_def less_Suc_eq nth_list_update)
      qed
    qed
    show ?thesis unfolding step eq using a b len by simp
  qed
qed

lemma closeParts_nth:
  "length (closeParts cs) = length cs
   \<and> (\<forall>j < length cs. closeParts cs ! j = closed_upto cs (length cs) j)"
  using closeParts_invariant [of "length cs" cs] by (simp add: closeParts_def)

lemma closeParts_holePoint:
  "j < length cs \<Longrightarrow> holePoint (closeParts cs ! j) = holePoint (cs ! j)"
  using closeParts_nth [of cs] by (simp add: closed_upto_def)

lemma closeParts_position:
  "i < length cs \<Longrightarrow> j < length cs \<Longrightarrow>
   isPositionEqualTo (closeParts cs ! i) (closeParts cs ! j) = isPositionEqualTo (cs ! i) (cs ! j)"
  using closeParts_nth [of cs] by (simp add: closed_upto_def isPositionEqualTo_def)

lemma is_part_closeParts: "is_part (closeParts cs) s e = is_part cs s e"
proof -
  have len: "length (closeParts cs) = length cs"
    using closeParts_nth [of cs] by simp
  have h: "\<And>j. j < length cs \<Longrightarrow> holePoint (closeParts cs ! j) = holePoint (cs ! j)"
    by (rule closeParts_holePoint)
  show ?thesis
  proof (cases "s \<le> e \<and> e < length cs")
    case False
    then show ?thesis by (auto simp: is_part_def len)
  next
    case True
    then have a: "(s = 0 \<or> holePoint (closeParts cs ! (s - 1))) = (s = 0 \<or> holePoint (cs ! (s - 1)))"
      by (cases s) (simp_all add: h)
    from True have b: "(\<forall>m \<in> {s..<e}. \<not> holePoint (closeParts cs ! m)) = (\<forall>m \<in> {s..<e}. \<not> holePoint (cs ! m))"
      by (auto simp: h)
    from True have c: "holePoint (closeParts cs ! e) = holePoint (cs ! e)"
      by (simp add: h)
    show ?thesis unfolding is_part_def len a b c ..
  qed
qed

lemma closeParts_closed:
  assumes nc: "\<forall>j < length cs. \<not> closePoint (cs ! j)"
  shows "(\<forall>s e. is_part (closeParts cs) s e \<longrightarrow>
            closePoint (closeParts cs ! e)
              = isPositionEqualTo (closeParts cs ! e) (closeParts cs ! s))
         \<and> (\<forall>i < length (closeParts cs).
              \<not> holePoint (closeParts cs ! i) \<and> Suc i \<noteq> length (closeParts cs)
                \<longrightarrow> \<not> closePoint (closeParts cs ! i))"
proof (intro conjI allI impI)
  fix s e
  assume "is_part (closeParts cs) s e"
  then have p: "is_part cs s e" by (simp add: is_part_closeParts)
  then have se: "s \<le> e" and e: "e < length cs" and s: "s < length cs"
    and ps: "part_start cs e = s" and pe: "holePoint (cs ! e) \<or> Suc e = length cs"
    by (auto simp: is_part_def intro: is_part_start)
  from closeParts_nth [of cs] e have "closeParts cs ! e = closed_upto cs (length cs) e"
    by simp
  then have "closePoint (closeParts cs ! e) = isPositionEqualTo (cs ! e) (cs ! s)"
    using e pe ps nc by (auto simp: closed_upto_def)
  then show "closePoint (closeParts cs ! e)
      = isPositionEqualTo (closeParts cs ! e) (closeParts cs ! s)"
    using e s by (simp add: closeParts_position)
next
  fix i
  assume i: "i < length (closeParts cs)"
    and ne: "\<not> holePoint (closeParts cs ! i) \<and> Suc i \<noteq> length (closeParts cs)"
  from closeParts_nth [of cs] have len: "length (closeParts cs) = length cs" by simp
  with i have i': "i < length cs" by simp
  with ne len have "\<not> holePoint (cs ! i)" "Suc i \<noteq> length cs"
    by (simp_all add: closeParts_holePoint)
  with closeParts_nth [of cs] i' nc show "\<not> closePoint (closeParts cs ! i)"
    by (simp add: closed_upto_def)
qed

lemma nth_list_update_if: "xs[i := x] ! j = (if i = j \<and> i < length xs then x else xs ! j)"
proof (cases "i < length xs")
  case True
  then show ?thesis by (simp add: nth_list_update)
next
  case False
  then have "xs[i := x] = xs" by (simp add: list_update_beyond)
  with False show ?thesis by simp
qed

lemma fillPathCoords_point_Inr:
  assumes "fillPathCoords_point st is_area pts i cs = Inr cs1"
  shows "length cs1 = length cs
    \<and> (\<forall>j < length cs.
          closePoint (cs1 ! j) = closePoint (cs ! j)
          \<and> rawX (cs1 ! j) = (if j = i then offset_x st + pt_x (pts i) * 10 else rawX (cs ! j))
          \<and> rawY (cs1 ! j) = (if j = i then offset_y st + pt_y (pts i) * (- 10) else rawY (cs ! j))
          \<and> (\<not> py_hole (pts i) \<longrightarrow> holePoint (cs1 ! j) = holePoint (cs ! j)))"
proof -
  define c1 where "c1 = cs[i := convertPoint st (cs ! i) (pt_x (pts i)) (pt_y (pts i))]"
  define c2 where "c2 = (if px_ctl1 (pts i) \<and> i > 0
             then c1[i - 1 := (c1 ! (i - 1))\<lparr>curveStart := True\<rparr>] else c1)"
  define c3 where "c3 = (if py_dash (pts i) \<or> py_corner (pts i)
             then c2[i := (c2 ! i)\<lparr>dashPoint := True\<rparr>] else c2)"
  have p1: "length c1 = length cs
      \<and> (\<forall>j < length cs. closePoint (c1 ! j) = closePoint (cs ! j)
          \<and> rawX (c1 ! j) = (if j = i then offset_x st + pt_x (pts i) * 10 else rawX (cs ! j))
          \<and> rawY (c1 ! j) = (if j = i then offset_y st + pt_y (pts i) * (- 10) else rawY (cs ! j))
          \<and> holePoint (c1 ! j) = holePoint (cs ! j))"
    by (simp add: c1_def nth_list_update_if convertPoint_def)
  have p2: "length c2 = length c1
      \<and> (\<forall>j. closePoint (c2 ! j) = closePoint (c1 ! j) \<and> rawX (c2 ! j) = rawX (c1 ! j)
          \<and> rawY (c2 ! j) = rawY (c1 ! j) \<and> holePoint (c2 ! j) = holePoint (c1 ! j))"
    by (simp add: c2_def nth_list_update_if)
  have p3: "length c3 = length c2
      \<and> (\<forall>j. closePoint (c3 ! j) = closePoint (c2 ! j) \<and> rawX (c3 ! j) = rawX (c2 ! j)
          \<and> rawY (c3 ! j) = rawY (c2 ! j) \<and> holePoint (c3 ! j) = holePoint (c2 ! j))"
    by (simp add: c3_def nth_list_update_if)
  from assms have "cs1 = c3 \<and> \<not> py_hole (pts i)
      \<or> cs1 = c3[i - 1 := (c3 ! (i - 1))\<lparr>holePoint := True\<rparr>] \<and> py_hole (pts i)
      \<or> cs1 = c3[i := (c3 ! i)\<lparr>holePoint := True\<rparr>] \<and> py_hole (pts i)"
    unfolding fillPathCoords_point_def Let_def c1_def [symmetric] c2_def [symmetric]
      c3_def [symmetric]
    by (auto split: if_splits)
  then have p4: "length cs1 = length c3
      \<and> (\<forall>j. closePoint (cs1 ! j) = closePoint (c3 ! j) \<and> rawX (cs1 ! j) = rawX (c3 ! j)
          \<and> rawY (cs1 ! j) = rawY (c3 ! j)
          \<and> (\<not> py_hole (pts i) \<longrightarrow> holePoint (cs1 ! j) = holePoint (c3 ! j)))"
    by (auto simp: nth_list_update_if split: if_splits)
  from p1 p2 p3 p4 show ?thesis
    by simp
qed

lemma fillPathCoords_point_total:
  "\<not> py_hole (pts i) \<Longrightarrow> \<exists>cs1. fillPathCoords_point st is_area pts i cs = Inr cs1"
  by (simp add: fillPathCoords_point_def Let_def)

lemma fillPathCoords_points_Inr:
  "fillPathCoords_points st is_area pts ixs cs = Inr cs' \<Longrightarrow>
   length cs' = length cs
   \<and> (\<forall>j < length cs.
         closePoint (cs' ! j) = closePoint (cs ! j)
         \<and> rawX (cs' ! j) = (if j \<in> set ixs then offset_x st + pt_x (pts j) * 10 else rawX (cs ! j))
         \<and> rawY (cs' ! j) = (if j \<in> set ixs then offset_y st + pt_y (pts j) * (- 10) else rawY (cs ! j))
         \<and> ((\<forall>i \<in> set ixs. \<not> py_hole (pts i)) \<longrightarrow> holePoint (cs' ! j) = holePoint (cs ! j)))"
proof (induction ixs arbitrary: cs)
  case Nil
  then show ?case by simp
next
  case (Cons i ixs)
  from Cons.prems obtain cs1 where s1: "fillPathCoords_point st is_area pts i cs = Inr cs1"
    and r: "fillPathCoords_points st is_area pts ixs cs1 = Inr cs'"
    by (auto split: sum.splits)
  note a = fillPathCoords_point_Inr [OF s1]
  note b = Cons.IH [OF r]
  from a b show ?case by auto
qed

lemma fillPathCoords_points_total:
  "\<forall>i \<in> set ixs. \<not> py_hole (pts i) \<Longrightarrow> \<exists>cs'. fillPathCoords_points st is_area pts ixs cs = Inr cs'"
proof (induction ixs arbitrary: cs)
  case Nil
  then show ?case by simp
next
  case (Cons i ixs)
  then obtain cs1 where "fillPathCoords_point st is_area pts i cs = Inr cs1"
    using fillPathCoords_point_total [of pts i st is_area cs] by auto
  with Cons show ?case by simp
qed

lemma resize_nth:
  "length (resize d n xs) = n \<and> (\<forall>j < n. resize d n xs ! j = (if j < length xs then xs ! j else d))"
  by (auto simp: resize_def nth_append)

lemma fillPathCoords_Path_Inr:
  assumes f: "fillPathCoords env st object is_area npts pts = Inr object'"
    and ty: "obj_type object = Object_Path"
  shows "\<exists>cs. 0 \<le> npts
      \<and> fillPathCoords_points st is_area pts [0..<nat npts]
          (resize (MapCoord_new env) (nat npts) (coords object)) = Inr cs
      \<and> coords object' = closeParts cs"
  using f ty by (auto simp: fillPathCoords_def split: if_splits sum.splits)

subsection \<open>Claim C3\<close>

text \<open>
  C3. Closed-part detection on imported path objects. The first part is for every run of
  \<open>fillPathCoords\<close> that returns, on a path object whose coordinates carry no close-point
  flag before the call and with a default coordinate that carries none: for every partition
  of the resulting coordinate sequence at its hole-flagged points (the end of the sequence
  also ends a partition), the last point of the partition is a close-point exactly when
  its raw position equals the raw position of the first point of the partition, and no
  other point is a close-point. The second part is the 4-point path: on a new path object
  without coordinates, four legacy points without hole flags are decoded, and the last
  point is a close-point exactly when its legacy coordinates are those of the first; so a
  path with identical first and last coordinates is closed and one with a difference of one
  unit is not.
\<close>

theorem fillPathCoords_closed_parts:
  "(fillPathCoords env st object is_area npts pts = Inr object'
      \<and> obj_type object = Object_Path \<and> \<not> closePoint (MapCoord_new env)
      \<and> (\<forall>c \<in> set (coords object). \<not> closePoint c)
    \<longrightarrow> (\<forall>s e. is_part (coords object') s e \<longrightarrow>
            closePoint (coords object' ! e)
              = isPositionEqualTo (coords object' ! e) (coords object' ! s))
        \<and> (\<forall>i < length (coords object').
             \<not> holePoint (coords object' ! i) \<and> Suc i \<noteq> length (coords object')
               \<longrightarrow> \<not> closePoint (coords object' ! i)))
   \<and> (obj_type object = Object_Path \<and> coords object = []
      \<and> \<not> closePoint (MapCoord_new env) \<and> \<not> holePoint (MapCoord_new env)
      \<and> (\<forall>i < 4. \<not> py_hole (pts i))
    \<longrightarrow> (\<exists>ob. fillPathCoords env st object is_area 4 pts = Inr ob
          \<and> length (coords ob) = 4
          \<and> closePoint (coords ob ! 3)
              = (pt_x (pts 3) = pt_x (pts 0) \<and> pt_y (pts 3) = pt_y (pts 0))))"
proof (rule conjI; rule impI)
  assume a: "fillPathCoords env st object is_area npts pts = Inr object'
      \<and> obj_type object = Object_Path \<and> \<not> closePoint (MapCoord_new env)
      \<and> (\<forall>c \<in> set (coords object). \<not> closePoint c)"
  then obtain cs where n: "0 \<le> npts"
    and cs: "fillPathCoords_points st is_area pts [0..<nat npts]
          (resize (MapCoord_new env) (nat npts) (coords object)) = Inr cs"
    and co: "coords object' = closeParts cs"
    using fillPathCoords_Path_Inr by blast
  let ?r = "resize (MapCoord_new env) (nat npts) (coords object)"
  from a have "\<forall>j < length ?r. \<not> closePoint (?r ! j)"
    using resize_nth [of "MapCoord_new env" "nat npts" "coords object"] by simp
  with fillPathCoords_points_Inr [OF cs] have "\<forall>j < length cs. \<not> closePoint (cs ! j)"
    by simp
  from closeParts_closed [OF this]
  show "(\<forall>s e. is_part (coords object') s e \<longrightarrow>
            closePoint (coords object' ! e)
              = isPositionEqualTo (coords object' ! e) (coords object' ! s))
        \<and> (\<forall>i < length (coords object').
             \<not> holePoint (coords object' ! i) \<and> Suc i \<noteq> length (coords object')
               \<longrightarrow> \<not> closePoint (coords object' ! i))"
    unfolding co .
next
  assume b: "obj_type object = Object_Path \<and> coords object = []
      \<and> \<not> closePoint (MapCoord_new env) \<and> \<not> holePoint (MapCoord_new env)
      \<and> (\<forall>i < 4. \<not> py_hole (pts i))"
  let ?r = "resize (MapCoord_new env) 4 (coords object)"
  have nh: "\<forall>i \<in> set [0..<4]. \<not> py_hole (pts i)"
    using b by simp
  from fillPathCoords_points_total [OF nh] obtain cs
    where cs: "fillPathCoords_points st is_area pts [0..<4] ?r = Inr cs"
    by blast
  have r: "length ?r = 4 \<and> (\<forall>j < 4. ?r ! j = MapCoord_new env)"
    using b resize_nth [of "MapCoord_new env" 4 "coords object"] by simp
  note p = fillPathCoords_points_Inr [OF cs]
  from p r have len: "length cs = 4"
    by simp
  from p r nh b have fl: "\<forall>j < 4. \<not> closePoint (cs ! j) \<and> \<not> holePoint (cs ! j)"
    by simp
  from p r have pos: "\<forall>j < 4. rawX (cs ! j) = offset_x st + pt_x (pts j) * 10
      \<and> rawY (cs ! j) = offset_y st + pt_y (pts j) * (- 10)"
    by simp
  have "is_part cs 0 3"
    using fl len by (simp add: is_part_def)
  then have part: "is_part (closeParts cs) 0 3"
    by (simp only: is_part_closeParts)
  have nc: "\<forall>j < length cs. \<not> closePoint (cs ! j)"
    using fl len by simp
  from closeParts_closed [OF nc] part
  have "closePoint (closeParts cs ! 3) = isPositionEqualTo (closeParts cs ! 3) (closeParts cs ! 0)"
    by blast
  also have "\<dots> = isPositionEqualTo (cs ! 3) (cs ! 0)"
    using len by (simp add: closeParts_position)
  also have "\<dots> = (pt_x (pts 3) = pt_x (pts 0) \<and> pt_y (pts 3) = pt_y (pts 0))"
    using pos by (simp add: isPositionEqualTo_def)
  finally have cl: "closePoint (closeParts cs ! 3)
      = (pt_x (pts 3) = pt_x (pts 0) \<and> pt_y (pts 3) = pt_y (pts 0))" .
  have "fillPathCoords env st object is_area 4 pts = Inr (object\<lparr>coords := closeParts cs\<rparr>)"
    using cs b by (simp add: fillPathCoords_def)
  moreover have "length (closeParts cs) = 4"
    using closeParts_nth [of cs] len by simp
  ultimately show "\<exists>ob. fillPathCoords env st object is_area 4 pts = Inr ob
          \<and> length (coords ob) = 4
          \<and> closePoint (coords ob ! 3)
              = (pt_x (pts 3) = pt_x (pts 0) \<and> pt_y (pts 3) = pt_y (pts 0))"
    using cl by simp
qed

theorem fillPathCoords_closed_parts_witness:
  "fillPathCoords example_env example_importer example_path False 5 example_pts
     = Inr (example_path\<lparr>coords := example_coords\<rparr>)
   \<and> is_part example_coords 0 2 \<and> closePoint (example_coords ! 2)
   \<and> is_part example_coords 3 4 \<and> \<not> closePoint (example_coords ! 4)
   \<and> \<not> closePoint (example_coords ! 1)
   \<and> (\<exists>ob. fillPathCoords example_env example_importer example_path False 4
              (\<lambda>i. [example_pt 1 2 False, example_pt 5 6 False, example_pt 7 8 False,
                     example_pt 1 2 False] ! i) = Inr ob
          \<and> closePoint (coords ob ! 3))
   \<and> (\<exists>ob. fillPathCoords example_env example_importer example_path False 4
              (\<lambda>i. [example_pt 1 2 False, example_pt 5 6 False, example_pt 7 8 False,
                     example_pt 1 3 False] ! i) = Inr ob
          \<and> \<not> closePoint (coords ob ! 3))"
proof -
  let ?ob = "example_path\<lparr>coords := example_coords\<rparr>"
  let ?p = "\<lambda>i. [example_pt 1 2 False, example_pt 5 6 False, example_pt 7 8 False,
                     example_pt 1 2 False] ! i"
  let ?q = "\<lambda>i. [example_pt 1 2 False, example_pt 5 6 False, example_pt 7 8 False,
                     example_pt 1 3 False] ! i"
  have f: "fillPathCoords example_env example_importer example_path False 5 example_pts
      = Inr ?ob"
    by code_simp
  have h: "obj_type example_path = Object_Path" "\<not> closePoint (MapCoord_new example_env)"
    "\<forall>c \<in> set (coords example_path). \<not> closePoint c" "coords example_path = []"
    "\<not> holePoint (MapCoord_new example_env)"
    by (simp_all add: example_path_def example_env_def example_coord_def)
  have co: "coords ?ob = example_coords"
    by simp
  from fillPathCoords_closed_parts
    [of example_env example_importer example_path False 5 example_pts ?ob] f h
  have g: "\<forall>s e. is_part example_coords s e \<longrightarrow>
      closePoint (example_coords ! e)
        = isPositionEqualTo (example_coords ! e) (example_coords ! s)"
    and n: "\<forall>i < length example_coords.
      \<not> holePoint (example_coords ! i) \<and> Suc i \<noteq> length example_coords
        \<longrightarrow> \<not> closePoint (example_coords ! i)"
    unfolding co by blast+
  have p: "is_part example_coords 0 2" "is_part example_coords 3 4"
    by code_simp+
  have e: "isPositionEqualTo (example_coords ! 2) (example_coords ! 0)"
    "\<not> isPositionEqualTo (example_coords ! 4) (example_coords ! 3)"
    "1 < length example_coords" "\<not> holePoint (example_coords ! 1)"
    "Suc 1 \<noteq> length example_coords"
    by code_simp+
  from g p e have c: "closePoint (example_coords ! 2)" "\<not> closePoint (example_coords ! 4)"
    by blast+
  from n e have d: "\<not> closePoint (example_coords ! 1)"
    by blast
  have "\<forall>i < 4. \<not> py_hole (?p i)" "\<forall>i < 4. \<not> py_hole (?q i)"
    by (simp_all add: example_pt_def less_Suc_eq numeral_nat)
  with h fillPathCoords_closed_parts
    [of example_env example_importer example_path False 5 ?p ?ob]
    fillPathCoords_closed_parts
    [of example_env example_importer example_path False 5 ?q ?ob]
  have "\<exists>ob. fillPathCoords example_env example_importer example_path False 4 ?p = Inr ob
          \<and> closePoint (coords ob ! 3) = (pt_x (?p 3) = pt_x (?p 0) \<and> pt_y (?p 3) = pt_y (?p 0))"
    and "\<exists>ob. fillPathCoords example_env example_importer example_path False 4 ?q = Inr ob
          \<and> closePoint (coords ob ! 3) = (pt_x (?q 3) = pt_x (?q 0) \<and> pt_y (?q 3) = pt_y (?q 0))"
    by blast+
  then have "\<exists>ob. fillPathCoords example_env example_importer example_path False 4 ?p = Inr ob
          \<and> closePoint (coords ob ! 3)"
    and "\<exists>ob. fillPathCoords example_env example_importer example_path False 4 ?q = Inr ob
          \<and> \<not> closePoint (coords ob ! 3)"
    by (simp_all add: example_pt_def)
  with f p c d show ?thesis
    by blast
qed

subsection \<open>Claim C6\<close>

lemma convertColor_missing:
  "c \<notin> dom (color_index st) \<Longrightarrow>
   convertColor c st = (None, st\<lparr>warnings := warnings st @ [ColorIdNotFound c]\<rparr>)"
  by (simp add: convertColor_def addWarning_def)

lemma convertColor_registered:
  "color_index st c = Some m \<Longrightarrow> convertColor c st = (Some m, st)"
  by (auto simp: convertColor_def)

text \<open>
  C6. For every legacy color ordinal that is not registered in the ordinal to color map of
  the importer, \<open>convertColor\<close> returns the null color and appends to the warnings the one
  warning that names the ordinal; it has no other effect on the importer and raises no
  error (the function is total and returns a value). For a registered ordinal it returns the
  registered color and leaves the importer as it is. In particular the unregistered ordinal
  77, converted with no warning recorded before, yields the null color and exactly the one
  warning naming 77.
\<close>

theorem convertColor_unregistered:
  "(c \<notin> dom (color_index st) \<longrightarrow>
      convertColor c st = (None, st\<lparr>warnings := warnings st @ [ColorIdNotFound c]\<rparr>))
   \<and> (color_index st c = Some m \<longrightarrow> convertColor c st = (Some m, st))
   \<and> (77 \<notin> dom (color_index st) \<and> warnings st = [] \<longrightarrow>
      fst (convertColor 77 st) = None
      \<and> warnings (snd (convertColor 77 st)) = [ColorIdNotFound 77])"
  by (simp add: convertColor_missing convertColor_registered)

theorem convertColor_unregistered_witness:
  "77 \<notin> dom (color_index example_importer) \<and> warnings example_importer = []
   \<and> color_index example_importer 1 = Some 11
   \<and> convertColor 77 example_importer
       = (None, example_importer\<lparr>warnings := [ColorIdNotFound 77]\<rparr>)
   \<and> convertColor 1 example_importer = (Some 11, example_importer)"
proof -
  have h: "77 \<notin> dom (color_index example_importer)" "warnings example_importer = []"
    "color_index example_importer 1 = Some 11"
    by (simp_all add: example_importer_def)
  from convertColor_unregistered [of 77 example_importer 11] h
  have "convertColor 77 example_importer
       = (None, example_importer\<lparr>warnings := [ColorIdNotFound 77]\<rparr>)"
    by simp
  moreover from convertColor_unregistered [of 1 example_importer 11] h
  have "convertColor 1 example_importer = (Some 11, example_importer)"
    by simp
  ultimately show ?thesis
    using h by simp
qed

subsection \<open>Claim C9\<close>

lemma fillPathCoords_one_point:
  assumes ty: "obj_type p = Object_Point"
  shows "\<exists>c. fillPathCoords env st p False 1 pts = Inr (p\<lparr>coords := [c]\<rparr>)
     \<and> rawX c = offset_x st + pt_x (pts 0) * 10
     \<and> rawY c = offset_y st + pt_y (pts 0) * (- 10)"
proof -
  let ?r = "resize (MapCoord_new env) 1 (coords p)"
  have "\<exists>cs. fillPathCoords_point st False pts 0 ?r = Inr cs"
    by (simp add: fillPathCoords_point_def Let_def)
  then obtain cs where cs: "fillPathCoords_point st False pts 0 ?r = Inr cs"
    by blast
  have "length ?r = 1"
    by (simp add: resize_def)
  with fillPathCoords_point_Inr [OF cs]
  have len: "length cs = 1" and x: "rawX (cs ! 0) = offset_x st + pt_x (pts 0) * 10"
    and y: "rawY (cs ! 0) = offset_y st + pt_y (pts 0) * (- 10)"
    by simp_all
  from len obtain c where c: "cs = [c]"
    by (cases cs) auto
  have "fillPathCoords env st p False 1 pts = Inr (p\<lparr>coords := cs\<rparr>)"
    using cs ty by (simp add: fillPathCoords_def)
  with c x y show ?thesis
    by auto
qed

lemma importObject_symbol_Point:
  "\<exists>ob st'. importObject_symbol env ocad_object r (Symbol_Point ps) st
       = Some (Inr (Some ob, st'))
     \<and> obj_type ob = Object_Point \<and> obj_symbol ob = Some r \<and> length (coords ob) = 1
     \<and> rawX (coords ob ! 0) = offset_x st + pt_x (ob_pts ocad_object 0) * 10
     \<and> rawY (coords ob ! 0) = offset_y st + pt_y (ob_pts ocad_object 0) * (- 10)"
proof -
  let ?p = "new_object env Object_Point r"
  from import_convertRotation_total [of "c_int (ob_angle ocad_object)"]
  obtain a where a: "import_convertRotation (c_int (ob_angle ocad_object)) = Some a"
    by blast
  obtain p1 ps' where pp: "(if rotatable ps
                 then map_option (\<lambda>a. (?p\<lparr>rotation := a\<rparr>, ps))
                        (import_convertRotation (c_int (ob_angle ocad_object)))
                 else if ob_angle ocad_object \<noteq> 0 then
                   (if \<not> isSymmetrical env ps
                    then map_option (\<lambda>a. (?p\<lparr>rotation := a\<rparr>, ps\<lparr>rotatable := True\<rparr>))
                           (import_convertRotation (c_int (ob_angle ocad_object)))
                    else Some (?p, ps))
                 else Some (?p, ps)) = Some (p1, ps')"
    unfolding a by fastforce
  then have p1: "obj_type p1 = Object_Point" "obj_symbol p1 = Some r"
    unfolding a by (auto simp: new_object_def split: if_splits)
  have off: "offset_x (set_symbol r ps' st) = offset_x st"
    "offset_y (set_symbol r ps' st) = offset_y st"
    by (cases r; simp add: set_symbol_def)+
  from fillPathCoords_one_point [OF p1(1), of env "set_symbol r ps' st" "ob_pts ocad_object"]
  obtain c where c: "fillPathCoords env (set_symbol r ps' st) p1 False 1 (ob_pts ocad_object)
        = Inr (p1\<lparr>coords := [c]\<rparr>)"
     "rawX c = offset_x st + pt_x (ob_pts ocad_object 0) * 10"
     "rawY c = offset_y st + pt_y (ob_pts ocad_object 0) * (- 10)"
    unfolding off by blast
  have "importObject_symbol env ocad_object r (Symbol_Point ps) st
      = Some (Inr (Some (p1\<lparr>coords := [c]\<rparr>), set_symbol r ps' st))"
    unfolding importObject_symbol_def MapSymbol.case Let_def pp option.case prod.case c(1)
    by simp
  with p1 c show ?thesis
    by simp
qed

text \<open>
  C9. An imported legacy object resolves to a point symbol when its symbol number is
  registered for a point symbol, or when the number is registered neither for a symbol nor
  for a rectangle and the object has the type 1 (it then gets the map's symbol for undefined
  points). For every such object, whatever number of points its record claims,
  \<open>importObject\<close> returns a point object with exactly one coordinate, the decoded first
  point of the record.
\<close>

theorem importObject_point_one_coordinate:
  "symbol_index st (ob_symbol ocad_object) = Some (Symbol_Point ps)
   \<or> (symbol_index st (ob_symbol ocad_object) = None
       \<and> ob_symbol ocad_object \<notin> rectangle_info st \<and> ob_type ocad_object = 1)
   \<longrightarrow> (\<exists>ob st'. importObject env ocad_object st = Some (Inr (Some ob, st'))
          \<and> obj_type ob = Object_Point \<and> length (coords ob) = 1
          \<and> rawX (coords ob ! 0) = offset_x st + pt_x (ob_pts ocad_object 0) * 10
          \<and> rawY (coords ob ! 0) = offset_y st + pt_y (ob_pts ocad_object 0) * (- 10))"
proof
  assume "symbol_index st (ob_symbol ocad_object) = Some (Symbol_Point ps)
   \<or> (symbol_index st (ob_symbol ocad_object) = None
       \<and> ob_symbol ocad_object \<notin> rectangle_info st \<and> ob_type ocad_object = 1)"
  then show "\<exists>ob st'. importObject env ocad_object st = Some (Inr (Some ob, st'))
          \<and> obj_type ob = Object_Point \<and> length (coords ob) = 1
          \<and> rawX (coords ob ! 0) = offset_x st + pt_x (ob_pts ocad_object 0) * 10
          \<and> rawY (coords ob ! 0) = offset_y st + pt_y (ob_pts ocad_object 0) * (- 10)"
  proof
    assume "symbol_index st (ob_symbol ocad_object) = Some (Symbol_Point ps)"
    then have "importObject env ocad_object st
        = importObject_symbol env ocad_object (Indexed (ob_symbol ocad_object))
            (Symbol_Point ps) st"
      by (simp add: importObject_def)
    with importObject_symbol_Point
      [of env ocad_object "Indexed (ob_symbol ocad_object)" ps st]
    show ?thesis
      by auto
  next
    assume "symbol_index st (ob_symbol ocad_object) = None
       \<and> ob_symbol ocad_object \<notin> rectangle_info st \<and> ob_type ocad_object = 1"
    then have "importObject env ocad_object st
        = importObject_symbol env ocad_object UndefinedPoint
            (Symbol_Point (undefined_point st)) st"
      by (simp add: importObject_def)
    with importObject_symbol_Point [of env ocad_object UndefinedPoint "undefined_point st" st]
    show ?thesis
      by auto
  qed
qed

theorem importObject_point_one_coordinate_witness:
  "symbol_index example_importer (ob_symbol example_object) = None
   \<and> ob_symbol example_object \<notin> rectangle_info example_importer
   \<and> ob_type example_object = 1 \<and> ob_npts example_object = 3
   \<and> (\<exists>ob st'. importObject example_env example_object example_importer
          = Some (Inr (Some ob, st'))
          \<and> obj_type ob = Object_Point \<and> length (coords ob) = 1
          \<and> rawX (coords ob ! 0) = 120 \<and> rawY (coords ob ! 0) = - 340)"
proof -
  have h: "symbol_index example_importer (ob_symbol example_object) = None"
    "ob_symbol example_object \<notin> rectangle_info example_importer"
    "ob_type example_object = 1" "ob_npts example_object = 3"
    by (simp_all add: example_importer_def example_object_def)
  have v: "offset_x example_importer + pt_x (ob_pts example_object 0) * 10 = 120"
    "offset_y example_importer + pt_y (ob_pts example_object 0) * (- 10) = - 340"
    by (simp_all add: example_importer_def example_object_def example_pt_def)
  from importObject_point_one_coordinate
    [of example_importer example_object "PointSymbol_new example_env" example_env] h
  show ?thesis
    unfolding v by blast
qed

subsection \<open>Claim C8\<close>

lemma importPattern_loop_done:
  "\<not> p < pend \<Longrightarrow> importPattern_loop env mem pts pend p s = Some (Inr s)"
  by (subst importPattern_loop.simps) simp

lemma importPattern_loop_step:
  "p < pend \<Longrightarrow>
   importPattern_loop env mem pts pend p s =
     (case importPattern_element env mem pts pend p s of
        Inl e \<Rightarrow> Some (Inl e)
      | Inr s' \<Rightarrow> importPattern_loop env mem pts pend (p + (2 + e_npts (elt_at mem p))) s')"
  by (subst importPattern_loop.simps) simp

lemma importPattern_lone:
  assumes "0 < npts" and "npts \<le> 2 + e_npts (elt_at mem pts)"
  shows "importPattern env mem npts pts st =
     Some (importPattern_element env mem pts (pts + npts) pts
             (st, (PointSymbol_new env)\<lparr>rotatable := True\<rparr>))"
proof -
  have "\<not> pts + (2 + e_npts (elt_at mem pts)) < pts + npts"
    using assms by simp
  then show ?thesis
    using assms
    by (simp add: importPattern_def importPattern_loop_step importPattern_loop_done
        split: sum.splits)
qed

lemma importPattern_element_lone_dot:
  assumes "\<not> (p + (2 + e_npts (elt_at mem p)) < pend \<or> p > pts)"
    and "e_type (elt_at mem p) = OCAD_DOT_ELEMENT"
    and "0 < convertSize_int (e_diameter (elt_at mem p)) sdiv 2"
  shows "importPattern_element env mem pts pend p (st, symbol) =
     Inr (snd (convertColor (e_color (elt_at mem p)) st),
          symbol\<lparr>inner_color := fst (convertColor (e_color (elt_at mem p)) st),
                 inner_radius := convertSize_int (e_diameter (elt_at mem p)) sdiv 2,
                 outer_color := None, outer_width := 0\<rparr>)"
  using assms by (simp add: importPattern_element_def Let_def split_beta)

lemma importPattern_element_lone_circle:
  assumes "\<not> (p + (2 + e_npts (elt_at mem p)) < pend \<or> p > pts)"
    and "e_type (elt_at mem p) = OCAD_CIRCLE_ELEMENT"
    and "0 < convertSize_int (e_width (elt_at mem p))"
    and "0 < convertSize_int (e_diameter (elt_at mem p)) sdiv 2
             - convertSize_int (e_width (elt_at mem p))"
  shows "importPattern_element env mem pts pend p (st, symbol) =
     Inr (snd (convertColor (e_color (elt_at mem p)) st),
          symbol\<lparr>inner_color := None,
                 inner_radius := convertSize_int (e_diameter (elt_at mem p)) sdiv 2
                                   - convertSize_int (e_width (elt_at mem p)),
                 outer_color := fst (convertColor (e_color (elt_at mem p)) st),
                 outer_width := convertSize_int (e_width (elt_at mem p))\<rparr>)"
  using assms
  by (simp add: importPattern_element_def Let_def split_beta OCAD_DOT_ELEMENT_def
      OCAD_CIRCLE_ELEMENT_def)

lemma importPattern_element_multiple_dot:
  assumes "p + (2 + e_npts (elt_at mem p)) < pend \<or> p > pts"
    and "e_type (elt_at mem p) = OCAD_DOT_ELEMENT"
    and "0 < convertSize_int (e_diameter (elt_at mem p)) sdiv 2"
  shows "\<exists>ob. importPattern_element env mem pts pend p (st, symbol) =
     Inr (snd (convertColor (e_color (elt_at mem p)) st),
          symbol\<lparr>elements := elements symbol @
            [(ob, Element_Point False (convertSize_int (e_diameter (elt_at mem p)) sdiv 2)
                    (fst (convertColor (e_color (elt_at mem p)) st)) 0 None)]\<rparr>)
     \<and> obj_type ob = Object_Point \<and> length (coords ob) = 1"
  using assms
  apply (simp add: importPattern_element_def Let_def split_beta addElement_def new_object_def)
  apply (rule exI, rule conjI, rule refl)
  apply (simp add: resize_def)
  done

lemma importPattern_element_multiple_circle:
  assumes "p + (2 + e_npts (elt_at mem p)) < pend \<or> p > pts"
    and "e_type (elt_at mem p) = OCAD_CIRCLE_ELEMENT"
    and "0 < convertSize_int (e_width (elt_at mem p))"
    and "0 < convertSize_int (e_diameter (elt_at mem p)) sdiv 2
             - convertSize_int (e_width (elt_at mem p))"
  shows "\<exists>ob. importPattern_element env mem pts pend p (st, symbol) =
     Inr (snd (convertColor (e_color (elt_at mem p)) st),
          symbol\<lparr>elements := elements symbol @
            [(ob, Element_Point False
                    (convertSize_int (e_diameter (elt_at mem p)) sdiv 2
                       - convertSize_int (e_width (elt_at mem p)))
                    None (convertSize_int (e_width (elt_at mem p)))
                    (fst (convertColor (e_color (elt_at mem p)) st)))]\<rparr>)
     \<and> obj_type ob = Object_Point \<and> length (coords ob) = 1"
  using assms
  apply (simp add: importPattern_element_def Let_def split_beta addElement_def new_object_def
      OCAD_DOT_ELEMENT_def OCAD_CIRCLE_ELEMENT_def)
  apply (rule exI, rule conjI, rule refl)
  apply (simp add: resize_def)
  done

text \<open>The point symbols among the elements of a point symbol.\<close>

lemma importPattern_element_lone_no_point:
  assumes lone: "\<not> (p + (2 + e_npts (elt_at mem p)) < pend \<or> p > pts)"
    and r: "importPattern_element env mem pts pend p (st, symbol) = Inr (st', symbol')"
  shows "filter (\<lambda>x. is_Element_Point (snd x)) (elements symbol')
       = filter (\<lambda>x. is_Element_Point (snd x)) (elements symbol)"
proof -
  have "elements symbol' = elements symbol
     \<or> (\<exists>ob sy. elements symbol' = elements symbol @ [(ob, sy)] \<and> \<not> is_Element_Point sy)"
    using lone r
    by (auto simp: importPattern_element_def Let_def split_beta addElement_def
        split: if_splits sum.splits)
  then show ?thesis
    by auto
qed

text \<open>
  C8, as stated: a sub-element becomes its own nested point symbol only when more than one
  drawable element exists. This fails: the source decides by \<open>multiple_elements\<close>, which
  is computed from the position of the record in the pattern before the sizes are tested.
  In the pattern of the dot at slot 0 followed by a circle record with the line width 0
  at slot 3, the dot is the only drawable element, and it becomes a nested point symbol:
  the elements of the parent hold it and the inner-circle fields of the parent are as the
  constructor left them.
\<close>

theorem importPattern_lone_drawable_counterexample:
  "drawable (elt_at example_dot_blank 0) \<and> \<not> drawable (elt_at example_dot_blank 3)
   \<and> 0 + (2 + e_npts (elt_at example_dot_blank 0)) = 3
   \<and> 3 + (2 + e_npts (elt_at example_dot_blank 3)) = 6
   \<and> importPattern example_env example_dot_blank 6 0 example_importer =
       Some (Inr (example_importer,
         (PointSymbol_new example_env)\<lparr>rotatable := True,
            elements := [(\<lparr>obj_type = Object_Point,
                obj_symbol = Some (Element_Point False 250 (Some 11) 0 None),
                coords = [example_coord], rotation = 0\<rparr>,
              Element_Point False 250 (Some 11) 0 None)]\<rparr>))"
proof -
  have d: "drawable (elt_at example_dot_blank 0)" "\<not> drawable (elt_at example_dot_blank 3)"
    by code_simp+
  have n: "0 + (2 + e_npts (elt_at example_dot_blank 0)) = 3"
    "3 + (2 + e_npts (elt_at example_dot_blank 3)) = 6"
    by (simp_all add: example_dot_blank_def)
  have v: "convertSize_int 50 sdiv 2 = 250" "convertSize_int 0 = 0"
    "convertSize_int 30 sdiv 2 = 150"
    by code_simp+
  have c: "convertColor 1 example_importer = (Some 11, example_importer)"
    by (simp add: convertColor_def example_importer_def)
  have e0: "importPattern_element example_env example_dot_blank 0 6 0
      (example_importer, (PointSymbol_new example_env)\<lparr>rotatable := True\<rparr>)
    = Inr (example_importer, (PointSymbol_new example_env)\<lparr>rotatable := True,
            elements := [(\<lparr>obj_type = Object_Point,
                obj_symbol = Some (Element_Point False 250 (Some 11) 0 None),
                coords = [example_coord], rotation = 0\<rparr>,
              Element_Point False 250 (Some 11) 0 None)]\<rparr>)"
    by (simp add: importPattern_element_def Let_def example_dot_blank_def OCAD_DOT_ELEMENT_def
        v c addElement_def new_object_def resize_def example_env_def PointSymbol_new_def
        Symbol_new_def PointSymbol.defs Symbol.defs)
  have e3: "importPattern_element example_env example_dot_blank 0 6 3 (example_importer, s)
    = Inr (example_importer, s)" for s
    by (simp add: importPattern_element_def Let_def example_dot_blank_def OCAD_DOT_ELEMENT_def
        OCAD_CIRCLE_ELEMENT_def v)
  have "importPattern example_env example_dot_blank 6 0 example_importer =
       Some (Inr (example_importer,
         (PointSymbol_new example_env)\<lparr>rotatable := True,
            elements := [(\<lparr>obj_type = Object_Point,
                obj_symbol = Some (Element_Point False 250 (Some 11) 0 None),
                coords = [example_coord], rotation = 0\<rparr>,
              Element_Point False 250 (Some 11) 0 None)]\<rparr>))"
    using n by (simp add: importPattern_def importPattern_loop_step importPattern_loop_done e0 e3)
  with d n show ?thesis
    by simp
qed

text \<open>
  C8, amended: a dot or circle becomes its own nested point symbol only when the pattern
  holds more than one element record, whether or not anything is drawn for the other
  records. A record is alone when it is the first record of the pattern and the pattern
  ends with it. For a pattern with a lone record: a dot with a positive radius is written
  into the inner-circle fields of the parent point symbol, a circle with a positive line
  width and a positive inner radius is written into the inner-radius and outer-circle fields
  of the parent, and whatever the lone record is, no point symbol is added to the elements
  of the parent. When the record is not the first or not the last of the pattern, such a
  dot or circle becomes a nested point symbol of its own, appended to the elements of the
  parent with a point object of one coordinate.
\<close>

theorem importPattern_lone_element_collapsed:
  "(0 < npts \<and> npts \<le> 2 + e_npts (elt_at mem pts) \<longrightarrow>
      (e_type (elt_at mem pts) = OCAD_DOT_ELEMENT
         \<and> 0 < convertSize_int (e_diameter (elt_at mem pts)) sdiv 2 \<longrightarrow>
       importPattern env mem npts pts st =
         Some (Inr (snd (convertColor (e_color (elt_at mem pts)) st),
           (PointSymbol_new env)\<lparr>rotatable := True,
              inner_color := fst (convertColor (e_color (elt_at mem pts)) st),
              inner_radius := convertSize_int (e_diameter (elt_at mem pts)) sdiv 2,
              outer_color := None, outer_width := 0\<rparr>)))
      \<and> (e_type (elt_at mem pts) = OCAD_CIRCLE_ELEMENT
         \<and> 0 < convertSize_int (e_width (elt_at mem pts))
         \<and> 0 < convertSize_int (e_diameter (elt_at mem pts)) sdiv 2
                 - convertSize_int (e_width (elt_at mem pts)) \<longrightarrow>
       importPattern env mem npts pts st =
         Some (Inr (snd (convertColor (e_color (elt_at mem pts)) st),
           (PointSymbol_new env)\<lparr>rotatable := True,
              inner_color := None,
              inner_radius := convertSize_int (e_diameter (elt_at mem pts)) sdiv 2
                                - convertSize_int (e_width (elt_at mem pts)),
              outer_color := fst (convertColor (e_color (elt_at mem pts)) st),
              outer_width := convertSize_int (e_width (elt_at mem pts))\<rparr>)))
      \<and> (\<forall>st' symbol. importPattern env mem npts pts st = Some (Inr (st', symbol)) \<longrightarrow>
            filter (\<lambda>x. is_Element_Point (snd x)) (elements symbol)
              = filter (\<lambda>x. is_Element_Point (snd x)) (elements (PointSymbol_new env))))
   \<and> ((p + (2 + e_npts (elt_at mem p)) < pend \<or> pts < p)
        \<and> e_type (elt_at mem p) = OCAD_DOT_ELEMENT
        \<and> 0 < convertSize_int (e_diameter (elt_at mem p)) sdiv 2 \<longrightarrow>
       (\<exists>ob. importPattern_element env mem pts pend p (st, parent) =
          Inr (snd (convertColor (e_color (elt_at mem p)) st),
            parent\<lparr>elements := elements parent @
              [(ob, Element_Point False (convertSize_int (e_diameter (elt_at mem p)) sdiv 2)
                      (fst (convertColor (e_color (elt_at mem p)) st)) 0 None)]\<rparr>)
          \<and> obj_type ob = Object_Point \<and> length (coords ob) = 1))
   \<and> ((p + (2 + e_npts (elt_at mem p)) < pend \<or> pts < p)
        \<and> e_type (elt_at mem p) = OCAD_CIRCLE_ELEMENT
        \<and> 0 < convertSize_int (e_width (elt_at mem p))
        \<and> 0 < convertSize_int (e_diameter (elt_at mem p)) sdiv 2
                - convertSize_int (e_width (elt_at mem p)) \<longrightarrow>
       (\<exists>ob. importPattern_element env mem pts pend p (st, parent) =
          Inr (snd (convertColor (e_color (elt_at mem p)) st),
            parent\<lparr>elements := elements parent @
              [(ob, Element_Point False
                      (convertSize_int (e_diameter (elt_at mem p)) sdiv 2
                         - convertSize_int (e_width (elt_at mem p)))
                      None (convertSize_int (e_width (elt_at mem p)))
                      (fst (convertColor (e_color (elt_at mem p)) st)))]\<rparr>)
          \<and> obj_type ob = Object_Point \<and> length (coords ob) = 1))"
proof (intro conjI impI allI)
  assume a: "0 < npts \<and> npts \<le> 2 + e_npts (elt_at mem pts)"
  then have lone: "\<not> (pts + (2 + e_npts (elt_at mem pts)) < pts + npts \<or> pts > pts)"
    by simp
  note ip = importPattern_lone [of npts mem pts env st]
  {
    assume "e_type (elt_at mem pts) = OCAD_DOT_ELEMENT
         \<and> 0 < convertSize_int (e_diameter (elt_at mem pts)) sdiv 2"
    with a ip importPattern_element_lone_dot [OF lone]
    show "importPattern env mem npts pts st =
         Some (Inr (snd (convertColor (e_color (elt_at mem pts)) st),
           (PointSymbol_new env)\<lparr>rotatable := True,
              inner_color := fst (convertColor (e_color (elt_at mem pts)) st),
              inner_radius := convertSize_int (e_diameter (elt_at mem pts)) sdiv 2,
              outer_color := None, outer_width := 0\<rparr>))"
      by simp
  }
  {
    assume "e_type (elt_at mem pts) = OCAD_CIRCLE_ELEMENT
         \<and> 0 < convertSize_int (e_width (elt_at mem pts))
         \<and> 0 < convertSize_int (e_diameter (elt_at mem pts)) sdiv 2
                 - convertSize_int (e_width (elt_at mem pts))"
    with a ip importPattern_element_lone_circle [OF lone]
    show "importPattern env mem npts pts st =
         Some (Inr (snd (convertColor (e_color (elt_at mem pts)) st),
           (PointSymbol_new env)\<lparr>rotatable := True,
              inner_color := None,
              inner_radius := convertSize_int (e_diameter (elt_at mem pts)) sdiv 2
                                - convertSize_int (e_width (elt_at mem pts)),
              outer_color := fst (convertColor (e_color (elt_at mem pts)) st),
              outer_width := convertSize_int (e_width (elt_at mem pts))\<rparr>))"
      by simp
  }
  {
    fix st' symbol
    assume "importPattern env mem npts pts st = Some (Inr (st', symbol))"
    with a ip have "importPattern_element env mem pts (pts + npts) pts
             (st, (PointSymbol_new env)\<lparr>rotatable := True\<rparr>) = Inr (st', symbol)"
      by simp
    from importPattern_element_lone_no_point [OF lone this]
    show "filter (\<lambda>x. is_Element_Point (snd x)) (elements symbol)
              = filter (\<lambda>x. is_Element_Point (snd x)) (elements (PointSymbol_new env))"
      by simp
  }
next
  assume "(p + (2 + e_npts (elt_at mem p)) < pend \<or> pts < p)
        \<and> e_type (elt_at mem p) = OCAD_DOT_ELEMENT
        \<and> 0 < convertSize_int (e_diameter (elt_at mem p)) sdiv 2"
  then show "\<exists>ob. importPattern_element env mem pts pend p (st, parent) =
          Inr (snd (convertColor (e_color (elt_at mem p)) st),
            parent\<lparr>elements := elements parent @
              [(ob, Element_Point False (convertSize_int (e_diameter (elt_at mem p)) sdiv 2)
                      (fst (convertColor (e_color (elt_at mem p)) st)) 0 None)]\<rparr>)
          \<and> obj_type ob = Object_Point \<and> length (coords ob) = 1"
    using importPattern_element_multiple_dot [of p mem pend pts env st parent] by blast
next
  assume "(p + (2 + e_npts (elt_at mem p)) < pend \<or> pts < p)
        \<and> e_type (elt_at mem p) = OCAD_CIRCLE_ELEMENT
        \<and> 0 < convertSize_int (e_width (elt_at mem p))
        \<and> 0 < convertSize_int (e_diameter (elt_at mem p)) sdiv 2
                - convertSize_int (e_width (elt_at mem p))"
  then show "\<exists>ob. importPattern_element env mem pts pend p (st, parent) =
          Inr (snd (convertColor (e_color (elt_at mem p)) st),
            parent\<lparr>elements := elements parent @
              [(ob, Element_Point False
                      (convertSize_int (e_diameter (elt_at mem p)) sdiv 2
                         - convertSize_int (e_width (elt_at mem p)))
                      None (convertSize_int (e_width (elt_at mem p)))
                      (fst (convertColor (e_color (elt_at mem p)) st)))]\<rparr>)
          \<and> obj_type ob = Object_Point \<and> length (coords ob) = 1"
    using importPattern_element_multiple_circle [of p mem pend pts env st parent] by blast
qed

theorem importPattern_lone_element_collapsed_witness:
  "importPattern example_env example_dots 3 0 example_importer =
       Some (Inr (example_importer,
         (PointSymbol_new example_env)\<lparr>rotatable := True, inner_color := Some 11,
            inner_radius := 250, outer_color := None, outer_width := 0\<rparr>))
   \<and> importPattern example_env example_circles 3 0 example_importer =
       Some (Inr (example_importer,
         (PointSymbol_new example_env)\<lparr>rotatable := True, inner_color := None,
            inner_radius := 100, outer_color := Some 11, outer_width := 50\<rparr>))
   \<and> (\<exists>ob. importPattern_element example_env example_dots 0 6 0
               (example_importer, PointSymbol_new example_env) =
          Inr (example_importer,
            (PointSymbol_new example_env)\<lparr>elements := elements (PointSymbol_new example_env) @
              [(ob, Element_Point False 250 (Some 11) 0 None)]\<rparr>))
   \<and> (\<exists>ob. importPattern_element example_env example_circles 0 6 3
               (example_importer, PointSymbol_new example_env) =
          Inr (example_importer,
            (PointSymbol_new example_env)\<lparr>elements := elements (PointSymbol_new example_env) @
              [(ob, Element_Point False 100 None 50 (Some 11))]\<rparr>))"
proof -
  have h: "(0 :: int) < 3" "3 \<le> 2 + e_npts (elt_at example_dots 0)"
    "e_type (elt_at example_dots 0) = OCAD_DOT_ELEMENT"
    "3 \<le> 2 + e_npts (elt_at example_circles 0)"
    "e_type (elt_at example_circles 0) = OCAD_CIRCLE_ELEMENT"
    "e_type (elt_at example_circles 3) = OCAD_CIRCLE_ELEMENT"
    "0 + (2 + e_npts (elt_at example_dots 0)) < 6"
    "(0 :: int) < 3"
    by (simp_all add: example_dots_def example_circles_def OCAD_DOT_ELEMENT_def
        OCAD_CIRCLE_ELEMENT_def)
  have v: "convertSize_int (e_diameter (elt_at example_dots 0)) sdiv 2 = 250"
    "convertSize_int (e_width (elt_at example_circles 0)) = 50"
    "convertSize_int (e_diameter (elt_at example_circles 0)) sdiv 2
       - convertSize_int (e_width (elt_at example_circles 0)) = 100"
    "convertSize_int (e_width (elt_at example_circles 3)) = 50"
    "convertSize_int (e_diameter (elt_at example_circles 3)) sdiv 2
       - convertSize_int (e_width (elt_at example_circles 3)) = 100"
    by code_simp+
  have c: "convertColor (e_color (elt_at example_dots 0)) example_importer
             = (Some 11, example_importer)"
    "convertColor (e_color (elt_at example_circles 0)) example_importer
             = (Some 11, example_importer)"
    "convertColor (e_color (elt_at example_circles 3)) example_importer
             = (Some 11, example_importer)"
    by (simp_all add: convertColor_def example_importer_def example_dots_def
        example_circles_def)
  from importPattern_lone_element_collapsed
    [of 3 example_dots 0 example_env example_importer 0 6 "PointSymbol_new example_env"] h v c
  have a: "importPattern example_env example_dots 3 0 example_importer =
       Some (Inr (example_importer,
         (PointSymbol_new example_env)\<lparr>rotatable := True, inner_color := Some 11,
            inner_radius := 250, outer_color := None, outer_width := 0\<rparr>))"
    and b: "\<exists>ob. importPattern_element example_env example_dots 0 6 0
               (example_importer, PointSymbol_new example_env) =
          Inr (example_importer,
            (PointSymbol_new example_env)\<lparr>elements := elements (PointSymbol_new example_env) @
              [(ob, Element_Point False 250 (Some 11) 0 None)]\<rparr>)"
    by auto
  from importPattern_lone_element_collapsed
    [of 3 example_circles 0 example_env example_importer 3 6 "PointSymbol_new example_env"] h v c
  have d: "importPattern example_env example_circles 3 0 example_importer =
       Some (Inr (example_importer,
         (PointSymbol_new example_env)\<lparr>rotatable := True, inner_color := None,
            inner_radius := 100, outer_color := Some 11, outer_width := 50\<rparr>))"
    and e: "\<exists>ob. importPattern_element example_env example_circles 0 6 3
               (example_importer, PointSymbol_new example_env) =
          Inr (example_importer,
            (PointSymbol_new example_env)\<lparr>elements := elements (PointSymbol_new example_env) @
              [(ob, Element_Point False 100 None 50 (Some 11))]\<rparr>)"
    by auto
  from a b d e show ?thesis
    by blast
qed

subsection \<open>Lemmas on importLineSymbol\<close>













subsection \<open>Claim C4\<close>



subsection \<open>Claim C10\<close>

lemma pattern_decodes_code [code]:
  "pattern_decodes mem pend p =
     (if p < pend
      then element_decodes mem p \<and> pattern_decodes mem pend (p + (2 + e_npts (elt_at mem p)))
      else True)"
  by (subst pattern_decodes.simps) auto





























subsection \<open>Claim C5\<close>

lemma export_convertPascalString_result:
  assumes bs: "1 \<le> buffer_size" "buffer_size \<le> 256"
    and enc: "length (fromUnicode env text) = length text"
    and buf: "nat buffer_size \<le> length buffer"
  shows "export_convertPascalString env text buffer buffer_size st =
     Inr (word_of_int (min (int (length text)) (buffer_size - 1))
            # take (nat (buffer_size - 1)) (fromUnicode env text)
            @ drop (1 + nat (min (int (length text)) (buffer_size - 1))) buffer,
          if int (length text) > buffer_size - 1
          then st\<lparr>export_warnings := export_warnings st
                 @ [StringTruncated (take (nat (buffer_size - 1)) text @ QString_of ''|||''
                      @ drop (nat (buffer_size - 1)) text)]\<rparr>
          else st)"
proof -
  define m where "m = min (int (length text)) (buffer_size - 1)"
  have m0: "0 \<le> m" using bs by (simp add: m_def)
  have m1: "m \<le> int (length (fromUnicode env text))" by (simp add: enc m_def)
  have m2: "1 + m \<le> int (length buffer)" using bs buf by (simp add: m_def)
  have tk: "take (nat m) (fromUnicode env text) = take (nat (buffer_size - 1)) (fromUnicode env text)"
    using bs enc by (simp add: m_def min_def nat_le_iff)
  have w: "int (length text) > buffer_size - 1 \<Longrightarrow>
      addStringTruncationWarning text (buffer_size - 1) st
        = st\<lparr>export_warnings := export_warnings st
                 @ [StringTruncated (take (nat (buffer_size - 1)) text @ QString_of ''|||''
                      @ drop (nat (buffer_size - 1)) text)]\<rparr>"
    using bs by (simp add: addStringTruncationWarning_def export_addWarning_def QString_insert_def)
  have c: "\<not> (m < 0 \<or> int (length (fromUnicode env text)) < m \<or> int (length buffer) < 1 + m)"
    using m0 m1 m2 by simp
  show ?thesis
    unfolding export_convertPascalString_def Let_def m_def [symmetric]
    using c bs(2) w by (simp add: tk)
qed

text \<open>
  C5. \<open>convertPascalString\<close> into a field of \<open>buffer_size\<close> bytes (at least 1, at most
  256), under a codec that encodes this text byte for character: the field holds the length
  byte, which is the smaller of the length of the text and \<open>buffer_size - 1\<close>, followed by
  that many bytes of the encoded text, that is the encoded text cut to \<open>buffer_size - 1\<close>
  bytes; the bytes behind are left as they were. When the text is longer than
  \<open>buffer_size - 1\<close>, exactly one warning is recorded, and it holds the text with the
  marker of three bars inserted at the position \<open>buffer_size - 1\<close>; otherwise the exporter
  is unchanged. A text of 300 characters into a field of 32 bytes gives the length byte 31,
  a payload of 31 bytes and one warning.
\<close>

theorem convertPascalString_truncation:
  assumes "1 \<le> buffer_size" and "buffer_size \<le> 256"
    and "length (fromUnicode env text) = length text"
    and "nat buffer_size \<le> length buffer"
  shows "\<exists>field st'.
     export_convertPascalString env text buffer buffer_size st = Inr (field, st')
     \<and> length field = length buffer
     \<and> uint (hd field) = min (int (length text)) (buffer_size - 1)
     \<and> take (unat (hd field)) (tl field) = take (nat (buffer_size - 1)) (fromUnicode env text)
     \<and> drop (1 + unat (hd field)) field = drop (1 + unat (hd field)) buffer
     \<and> (int (length text) > buffer_size - 1 \<longrightarrow>
          unat (hd field) = nat (buffer_size - 1)
          \<and> st' = st\<lparr>export_warnings := export_warnings st
                 @ [StringTruncated (take (nat (buffer_size - 1)) text @ QString_of ''|||''
                      @ drop (nat (buffer_size - 1)) text)]\<rparr>)
     \<and> (int (length text) \<le> buffer_size - 1 \<longrightarrow> st' = st)
     \<and> (length text = 300 \<and> buffer_size = 32 \<longrightarrow>
          hd field = 31 \<and> take 31 (tl field) = take 31 (fromUnicode env text)
          \<and> length (export_warnings st') = length (export_warnings st) + 1)"
proof -
  define m where "m = min (int (length text)) (buffer_size - 1)"
  define field where "field = (word_of_int m :: 8 word)
       # take (nat (buffer_size - 1)) (fromUnicode env text) @ drop (1 + nat m) buffer"
  define st' where "st' = (if int (length text) > buffer_size - 1
          then st\<lparr>export_warnings := export_warnings st
                 @ [StringTruncated (take (nat (buffer_size - 1)) text @ QString_of ''|||''
                      @ drop (nat (buffer_size - 1)) text)]\<rparr>
          else st)"
  have r: "export_convertPascalString env text buffer buffer_size st = Inr (field, st')"
    using export_convertPascalString_result [OF assms]
    by (simp add: field_def st'_def m_def)
  have m0: "0 \<le> m" "m < 256" "m \<le> buffer_size - 1" "m \<le> int (length text)"
    using assms by (simp_all add: m_def)
  have u: "uint (hd field) = m"
    using m0 by (simp add: field_def uint_word_of_int take_bit_int_eq_self)
  have un: "unat (hd field) = nat m"
    using u by (simp add: unat_eq_nat_uint)
  have nm: "nat m = min (length text) (nat (buffer_size - 1))"
    using assms(1) by (simp add: m_def min_def) linarith
  have lt: "length (take (nat (buffer_size - 1)) (fromUnicode env text)) = nat m"
    using assms(3) by (simp add: nm)
  have len: "length field = length buffer"
    using lt m0 assms(1,4) by (simp add: field_def del: length_take)
  have tkd: "take (nat m) (fromUnicode env text)
      = take (nat (buffer_size - 1)) (fromUnicode env text)"
    using assms(3) by (simp add: nm min_def)
  have tk: "take (nat m) (tl field) = take (nat (buffer_size - 1)) (fromUnicode env text)"
    using lt tkd by (simp add: field_def)
  have dr: "drop (1 + nat m) field = drop (1 + nat m) buffer"
    using lt by (simp add: field_def)
  have big: "int (length text) > buffer_size - 1 \<Longrightarrow> m = buffer_size - 1"
    by (simp add: m_def)
  have inst: "length text = 300 \<and> buffer_size = 32 \<longrightarrow>
          hd field = 31 \<and> take 31 (tl field) = take 31 (fromUnicode env text)
          \<and> length (export_warnings st') = length (export_warnings st) + 1"
    using tk by (auto simp: field_def m_def st'_def)
  show ?thesis
    using r len u un tk dr big inst
    by (intro exI [of _ field] exI [of _ st']) (simp add: st'_def m_def [symmetric])
qed

theorem convertPascalString_truncation_witness:
  "(1::int) \<le> 32 \<and> (32::int) \<le> 256
   \<and> length (fromUnicode example_export_env example_text) = length example_text
   \<and> nat 32 \<le> length (replicate 32 (0::8 word))
   \<and> length example_text = 300
   \<and> export_convertPascalString example_export_env example_text (replicate 32 0) 32 Exporter_new
       = Inr (31 # replicate 31 97,
              Exporter_new\<lparr>export_warnings :=
                [StringTruncated (replicate 31 97 @ QString_of ''|||'' @ replicate 269 97)]\<rparr>)"
proof -
  have h: "length (fromUnicode example_export_env example_text) = length example_text"
    by (simp add: example_export_env_def)
  have l: "length example_text = 300"
    by (simp add: example_text_def)
  from convertPascalString_truncation
    [of 32 example_export_env example_text "replicate 32 0" Exporter_new] h
  obtain field st' where
    r: "export_convertPascalString example_export_env example_text (replicate 32 0) 32
          Exporter_new = Inr (field, st')"
    and f: "length field = 32" "hd field = 31"
      "take 31 (tl field) = take 31 (fromUnicode example_export_env example_text)"
    and s: "st' = Exporter_new\<lparr>export_warnings := export_warnings Exporter_new
                 @ [StringTruncated (take 31 example_text @ QString_of ''|||''
                      @ drop 31 example_text)]\<rparr>"
    by (auto simp: l)
  from f(1) obtain b bs where fb: "field = b # bs" "length bs = 31"
    by (cases field) auto
  have d: "fromUnicode example_export_env example_text = replicate 300 97"
    by (simp add: example_export_env_def example_text_def)
  from f fb d have "field = 31 # replicate 31 97"
    by simp
  moreover have "st' = Exporter_new\<lparr>export_warnings :=
                [StringTruncated (replicate 31 97 @ QString_of ''|||'' @ replicate 269 97)]\<rparr>"
    by (simp add: s example_text_def Exporter_new_def)
  ultimately show ?thesis
    using r h l by simp
qed

subsection \<open>Claim C7\<close>

lemma unique_number_Some:
  assumes "unique_number numbers n = Some k"
  shows "k \<notin> numbers"
  using assms
proof (rule unique_number.raw_induct [where P = "\<lambda>numbers n k. k \<notin> numbers", rotated])
  fix probe numbers n k
  assume IH: "\<And>numbers n k. probe numbers n = Some k \<Longrightarrow> k \<notin> numbers"
    and eq: "(if n \<in> numbers then probe numbers (n + 1) else Some n) = Some k"
  show "k \<notin> numbers"
    using IH eq by (auto split: if_splits)
qed

lemma unique_number_total:
  assumes "k \<notin> numbers"
  shows "\<exists>j. unique_number numbers n = Some j"
  using assms
proof (induction "unat (k - n)" arbitrary: n rule: less_induct)
  case less
  show ?case
  proof (cases "n \<in> numbers")
    case False
    then show ?thesis
      by (subst unique_number.simps) simp
  next
    case True
    with less.prems have z: "k - n \<noteq> 0"
      by auto
    then have "unat (k - n) \<noteq> 0"
      by (simp add: unat_eq_zero)
    with z have "unat (k - n - 1) < unat (k - n)"
      by (simp add: unat_minus_one)
    then have "unat (k - (n + 1)) < unat (k - n)"
      by (simp only: diff_diff_eq)
    from less.hyps [OF this less.prems]
    obtain j where "unique_number numbers (n + 1) = Some j" ..
    with True show ?thesis
      by (subst unique_number.simps) simp
  qed
qed

lemma bindR_returns:
  assumes "bindR r f = Some (Inr y)"
  shows "\<exists>x. r = Some (Inr x) \<and> f x = Some (Inr y)"
  using assms by (auto simp: bindR_def split: option.splits sum.splits)

lemma bindR_returns_pair:
  assumes "bindR r (\<lambda>(a, b). g a b) = Some (Inr y)"
  shows "\<exists>a b. r = Some (Inr (a, b)) \<and> g a b = Some (Inr y)"
  using assms by (auto simp: bindR_def split: option.splits sum.splits)

lemma numbers_unique_same:
  assumes "file_symbols st' = file_symbols st" and "symbol_numbers st' = symbol_numbers st"
  shows "numbers_unique st' = numbers_unique st"
  using assms by (simp add: numbers_unique_def)

lemma numbers_unique_emit:
  assumes "numbers_unique st" and "n \<notin> symbol_numbers st"
    and "symbol_numbers st' = insert n (symbol_numbers st)"
    and "file_symbols st' = file_symbols st @ [r]" and "x_number r = n"
  shows "numbers_unique st'"
  using assms by (auto simp: numbers_unique_def)

lemma export_convertPascalString_Inr:
  assumes "export_convertPascalString env text buffer buffer_size st = Inr (b, st1)"
  shows "symbol_numbers st1 = symbol_numbers st \<and> file_symbols st1 = file_symbols st"
  using assms
  by (auto simp: export_convertPascalString_def Let_def addStringTruncationWarning_def
      export_addWarning_def split: if_splits)

lemma exportCommonSymbolFields_Inr:
  assumes "exportCommonSymbolFields env symbol ocad_symbol st = Some (Inr (r, st'))"
  shows "x_number r \<notin> symbol_numbers st
    \<and> symbol_numbers st' = insert (x_number r) (symbol_numbers st)
    \<and> file_symbols st' = file_symbols st"
proof -
  from assms obtain buffer st1 where
    c: "export_convertPascalString env (getPlainTextName env symbol) (x_name ocad_symbol) 32 st
          = Inr (buffer, st1)"
    by (auto simp: exportCommonSymbolFields_def split: sum.splits)
  from assms c obtain n0 n where
    u: "unique_number (symbol_numbers st1) n0 = Some n"
    and r: "x_number r = n"
    and s: "st' = st1\<lparr>symbol_numbers := insert n (symbol_numbers st1)\<rparr>"
    by (auto simp: exportCommonSymbolFields_def Let_def split: option.splits)
  from export_convertPascalString_Inr [OF c] unique_number_Some [OF u] r s
  show ?thesis
    by simp
qed

lemma exportSymbol_Inr:
  assumes "exportSymbol env ty symbol st = Some (Inr (n, st'))"
  shows "n \<notin> symbol_numbers st \<and> symbol_numbers st' = insert n (symbol_numbers st)
    \<and> (\<exists>r. file_symbols st' = file_symbols st @ [r] \<and> x_number r = n)"
proof -
  from bindR_returns_pair [OF assms [unfolded exportSymbol_def]] obtain r st1 where
    c: "exportCommonSymbolFields env symbol ocad_symbol_new st = Some (Inr (r, st1))"
    and f: "x_number r = n"
      "st' = st1\<lparr>file_symbols := file_symbols st1 @ [r\<lparr>x_type := ty\<rparr>]\<rparr>"
    by auto
  from exportCommonSymbolFields_Inr [OF c] f show ?thesis
    by simp
qed

lemma exportSymbol_unique:
  assumes "numbers_unique st" and "exportSymbol env ty symbol st = Some (Inr (n, st'))"
  shows "numbers_unique st'"
proof -
  from exportSymbol_Inr [OF assms(2)] obtain r where
    "n \<notin> symbol_numbers st" and "symbol_numbers st' = insert n (symbol_numbers st)"
    and "file_symbols st' = file_symbols st @ [r]" and "x_number r = n"
    by auto
  with assms(1) show ?thesis
    by (rule numbers_unique_emit)
qed

lemma doExport_symbol_unique:
  assumes u: "numbers_unique st" and r: "doExport_symbol env m i st = Some (Inr st')"
  shows "numbers_unique st'"
proof -
  define r1 where "r1 = (case map_symbols m ! i of
        Symbol_Point _ \<Rightarrow> exportSymbol env 1 (symbol_common (map_symbols m ! i)) st
      | Symbol_Line _ \<Rightarrow> exportSymbol env 2 (symbol_common (map_symbols m ! i)) st
      | Symbol_Area _ \<Rightarrow> exportSymbol env 3 (symbol_common (map_symbols m ! i)) st
      | Symbol_Text _ \<Rightarrow> exportSymbol env 4 (symbol_common (map_symbols m ! i)) st
      | Symbol_Combined _ _ \<Rightarrow> Some (Inr (- 1, st)))"
  have r1: "numbers_unique st1" if "r1 = Some (Inr (index, st1))" for index st1
    using that u by (auto simp: r1_def split: MapSymbol.splits dest: exportSymbol_unique [OF u])
  from r have "bindR r1 (\<lambda>(index, st').
           if 0 \<le> sint index
           then Some (Inr (st'\<lparr>export_symbol_index :=
                                (export_symbol_index st')(i \<mapsto> set_insert index [])\<rparr>))
           else Some (Inr st')) = Some (Inr st')"
    unfolding doExport_symbol_def r1_def Let_def .
  from bindR_returns_pair [OF this] obtain index st1 where x: "r1 = Some (Inr (index, st1))"
    and f: "file_symbols st' = file_symbols st1" "symbol_numbers st' = symbol_numbers st1"
    by (auto split: if_splits)
  from numbers_unique_same [OF f] r1 [OF x] show ?thesis
    by simp
qed

lemma doExport_symbols_unique:
  assumes "numbers_unique st" and "doExport_symbols env m ixs st = Some (Inr st')"
  shows "numbers_unique st'"
  using assms
proof (induction ixs arbitrary: st)
  case Nil
  then show ?case by simp
next
  case (Cons i ixs)
  from bindR_returns [OF Cons.prems(2) [unfolded doExport_symbols.simps]] obtain st1 where
    a: "doExport_symbol env m i st = Some (Inr st1)"
    and b: "doExport_symbols env m ixs st1 = Some (Inr st')"
    by blast
  from Cons.IH [OF doExport_symbol_unique [OF Cons.prems(1) a] b] show ?case .
qed

lemma doExport_combined_unique:
  "numbers_unique (doExport_combined env m i st) = numbers_unique st"
  by (simp add: doExport_combined_def numbers_unique_def split: MapSymbol.splits)

lemma doExport_combined_all_unique:
  "numbers_unique (foldl (\<lambda>st i. doExport_combined env m i st) st ixs) = numbers_unique st"
  by (induction ixs arbitrary: st) (simp_all add: doExport_combined_unique)

lemma ocad_symbol_by_number_Some:
  assumes "ocad_symbol_by_number symbols n = Some k"
  shows "k < length symbols \<and> x_number (symbols ! k) = n"
  using assms
  by (induction symbols arbitrary: k) (auto split: if_splits)

lemma x_number_setTextSymbolFormatting:
  "x_number (setTextSymbolFormatting r h) = x_number r"
  by (cases h) (simp_all add: setTextSymbolFormatting_def)

lemma doExport_text_format_emits:
  assumes r: "doExport_text_format object it st = Some (Inr (n, st'))"
  shows "(map x_number (file_symbols st') = map x_number (file_symbols st)
           \<and> symbol_numbers st' = symbol_numbers st)
       \<or> (n \<notin> symbol_numbers st \<and> symbol_numbers st' = insert n (symbol_numbers st)
           \<and> (\<exists>r. file_symbols st' = file_symbols st @ [r] \<and> x_number r = n))"
proof (cases "text_format_map st (mo_symbol object)")
  case None
  with r obtain k where k: "ocad_symbol_by_number (file_symbols st) it = Some k"
    and s: "st' = st\<lparr>file_symbols := (file_symbols st)
                       [k := setTextSymbolFormatting (file_symbols st ! k) (mo_halign object)],
                    text_format_map := (text_format_map st)
                       (mo_symbol object \<mapsto> [(mo_halign object, it)])\<rparr>"
    by (auto simp: doExport_text_format_def Let_def split: option.splits)
  from ocad_symbol_by_number_Some [OF k]
  have "map x_number ((file_symbols st)
      [k := setTextSymbolFormatting (file_symbols st ! k) (mo_halign object)])
      = map x_number (file_symbols st)"
    by (simp add: map_update x_number_setTextSymbolFormatting list_update_same_conv)
  with s show ?thesis
    by simp
next
  case (Some format_list)
  show ?thesis
  proof (cases "find (\<lambda>f. fst f = mo_halign object) format_list")
    case (Some f)
    with r \<open>text_format_map st (mo_symbol object) = Some format_list\<close> show ?thesis
      by (auto simp: doExport_text_format_def Let_def)
  next
    case None
    with r \<open>text_format_map st (mo_symbol object) = Some format_list\<close>
    obtain k where k: "ocad_symbol_by_number (file_symbols st) it = Some k"
      by (auto simp: doExport_text_format_def Let_def split: option.splits)
    define new_symbol where
      "new_symbol = setTextSymbolFormatting (file_symbols st ! k) (mo_halign object)"
    from r \<open>text_format_map st (mo_symbol object) = Some format_list\<close> None k
    have p: "unique_number (symbol_numbers st) (x_number new_symbol) = Some n"
      and s: "st' = st\<lparr>file_symbols := file_symbols st @ [new_symbol\<lparr>x_number := n\<rparr>],
                                 symbol_numbers := insert n (symbol_numbers st),
                                 text_format_map := (text_format_map st)
                                   (mo_symbol object \<mapsto> format_list @ [(mo_halign object, n)])\<rparr>"
      by (auto simp: doExport_text_format_def Let_def new_symbol_def split: option.splits)
    from unique_number_Some [OF p] s show ?thesis
      by simp
  qed
qed

lemma doExport_text_format_unique:
  assumes u: "numbers_unique st"
    and r: "doExport_text_format object it st = Some (Inr (n, st'))"
  shows "numbers_unique st'"
  using doExport_text_format_emits [OF r]
proof (elim disjE conjE exE)
  assume m: "map x_number (file_symbols st') = map x_number (file_symbols st)"
    and s: "symbol_numbers st' = symbol_numbers st"
  from u show ?thesis
    unfolding numbers_unique_def m s .
next
  fix ra
  assume "n \<notin> symbol_numbers st" and "symbol_numbers st' = insert n (symbol_numbers st)"
    and "file_symbols st' = file_symbols st @ [ra]" and "x_number ra = n"
  with u show ?thesis
    by (rule numbers_unique_emit)
qed

lemma doExport_object_index_unique:
  assumes u: "numbers_unique st"
    and r: "doExport_object_index object it st = Some (Inr st')"
  shows "numbers_unique st'"
proof -
  from bindR_returns_pair [OF r [unfolded doExport_object_index_def]] obtain n st1 ty where
    a: "(if mo_type object = Object_Text then doExport_text_format object it st
            else Some (Inr (it, st))) = Some (Inr (n, st1))"
    and b: "st' = st1\<lparr>file_objects := file_objects st1
                           @ [\<lparr>xo_symbol = n, xo_type = ty\<rparr>]\<rparr>"
    unfolding Let_def by auto
  from a u have "numbers_unique st1"
    by (auto split: if_splits dest: doExport_text_format_unique)
  moreover from b have "file_symbols st' = file_symbols st1"
    and "symbol_numbers st' = symbol_numbers st1"
    by auto
  from numbers_unique_same [OF this] have "numbers_unique st' = numbers_unique st1" .
  ultimately show ?thesis
    by simp
qed

lemma doExport_object_indices_unique:
  assumes "numbers_unique st" and "doExport_object_indices object its st = Some (Inr st')"
  shows "numbers_unique st'"
  using assms
proof (induction its arbitrary: st)
  case Nil
  then show ?case by simp
next
  case (Cons it its)
  from bindR_returns [OF Cons.prems(2) [unfolded doExport_object_indices.simps]] obtain st1 where
    a: "doExport_object_index object it st = Some (Inr st1)"
    and b: "doExport_object_indices object its st1 = Some (Inr st')"
    by blast
  from Cons.IH [OF doExport_object_index_unique [OF Cons.prems(1) a] b] show ?case .
qed

lemma doExport_objects_unique:
  assumes "numbers_unique st" and "doExport_objects objects st = Some (Inr st')"
  shows "numbers_unique st'"
  using assms
proof (induction objects arbitrary: st)
  case Nil
  then show ?case by simp
next
  case (Cons object objects)
  from bindR_returns [OF Cons.prems(2) [unfolded doExport_objects.simps]] obtain st1 where
    a: "doExport_object object st = Some (Inr st1)"
    and b: "doExport_objects objects st1 = Some (Inr st')"
    by blast
  from doExport_object_indices_unique [OF Cons.prems(1) a [unfolded doExport_object_def Let_def]]
  have "numbers_unique st1" .
  from Cons.IH [OF this b] show ?case .
qed

lemma doExport_unique:
  assumes "doExport env m = Some (Inr st')"
  shows "numbers_unique st'"
proof -
  have n: "numbers_unique Exporter_new"
    by (simp add: numbers_unique_def Exporter_new_def)
  from assms have "bindR (doExport_symbols env m [0..<length (map_symbols m)] Exporter_new)
      (\<lambda>st1. doExport_objects (map_objects m)
         (foldl (\<lambda>st i. doExport_combined env m i st) st1 [0..<length (map_symbols m)]))
      = Some (Inr st')"
    by (simp add: doExport_def split: if_splits)
  from bindR_returns [OF this] obtain st1 where
    a: "doExport_symbols env m [0..<length (map_symbols m)] Exporter_new = Some (Inr st1)"
    and b: "doExport_objects (map_objects m)
               (foldl (\<lambda>st i. doExport_combined env m i st) st1 [0..<length (map_symbols m)])
             = Some (Inr st')"
    by blast
  from doExport_symbols_unique [OF n a] have "numbers_unique st1" .
  then have "numbers_unique
      (foldl (\<lambda>st i. doExport_combined env m i st) st1 [0..<length (map_symbols m)])"
    by (simp add: doExport_combined_all_unique)
  from doExport_objects_unique [OF this b] show ?thesis .
qed

lemma bindR_assoc:
  "bindR (bindR r f) g = bindR r (\<lambda>x. bindR (f x) g)"
  by (simp add: bindR_def split: option.splits sum.splits)

lemma doExport_symbols_append:
  "doExport_symbols env m (ixs @ jxs) st
     = bindR (doExport_symbols env m ixs st) (doExport_symbols env m jxs)"
proof (induction ixs arbitrary: st)
  case Nil
  show ?case by (simp add: bindR_def)
next
  case (Cons i ixs)
  have "doExport_symbols env m (ixs @ jxs)
      = (\<lambda>st. bindR (doExport_symbols env m ixs st) (doExport_symbols env m jxs))"
    by (rule ext) (rule Cons.IH)
  then show ?case
    by (simp add: bindR_assoc)
qed

lemma doExport_objects_append:
  "doExport_objects (objects @ rest) st
     = bindR (doExport_objects objects st) (doExport_objects rest)"
proof (induction objects arbitrary: st)
  case Nil
  show ?case by (simp add: bindR_def)
next
  case (Cons object objects)
  have "doExport_objects (objects @ rest)
      = (\<lambda>st. bindR (doExport_objects objects st) (doExport_objects rest))"
    by (rule ext) (rule Cons.IH)
  then show ?case
    by (simp add: bindR_assoc)
qed

lemma doExport_symbols_prefix:
  assumes "numbers_unique st" and "doExport_symbols env m (ixs @ jxs) st = Some (Inr st')"
  shows "(\<exists>st1. doExport_symbols env m ixs st = Some (Inr st1) \<and> numbers_unique st1)
    \<and> numbers_unique st'"
proof -
  from bindR_returns [OF assms(2) [unfolded doExport_symbols_append]] obtain st1 where
    "doExport_symbols env m ixs st = Some (Inr st1)"
    by auto
  with doExport_symbols_unique [OF assms(1) this] doExport_symbols_unique [OF assms]
  show ?thesis
    by simp
qed

lemma doExport_objects_prefix:
  assumes "numbers_unique st" and "doExport_objects (objects @ rest) st = Some (Inr st')"
  shows "(\<exists>st1. doExport_objects objects st = Some (Inr st1) \<and> numbers_unique st1)
    \<and> numbers_unique st'"
proof -
  from bindR_returns [OF assms(2) [unfolded doExport_objects_append]] obtain st1 where
    "doExport_objects objects st = Some (Inr st1)"
    by auto
  with doExport_objects_unique [OF assms(1) this] doExport_objects_unique [OF assms]
  show ?thesis
    by simp
qed

text \<open>
  C7. Within one export run the numbers of the emitted symbol records are pairwise
  distinct. The probing loop only returns a number that is not assigned yet, and it
  returns whenever some number is free. A symbol record is emitted with the number the
  probe returns, which is not among the assigned numbers and is registered with them; so
  is the copy of a text symbol made for another alignment, and an object that makes no copy
  leaves the numbers as they are. Hence, from a state where the emitted numbers are
  pairwise distinct and registered, they are so after every prefix of the loop over the
  symbols and after every prefix of the loop over the objects, and in the state that
  \<open>doExport\<close> returns.
\<close>

theorem doExport_symbol_numbers_unique:
  "(\<forall>k. unique_number numbers n = Some k \<longrightarrow> k \<notin> numbers)
   \<and> ((\<exists>k. k \<notin> numbers) \<longrightarrow> (\<exists>k. unique_number numbers n = Some k))
   \<and> (\<forall>k st1. exportSymbol env ty symbol st = Some (Inr (k, st1)) \<longrightarrow>
         k \<notin> symbol_numbers st \<and> symbol_numbers st1 = insert k (symbol_numbers st)
         \<and> (\<exists>r. file_symbols st1 = file_symbols st @ [r] \<and> x_number r = k))
   \<and> (\<forall>k st1. doExport_text_format object it st = Some (Inr (k, st1)) \<longrightarrow>
         (map x_number (file_symbols st1) = map x_number (file_symbols st)
           \<and> symbol_numbers st1 = symbol_numbers st)
         \<or> (k \<notin> symbol_numbers st \<and> symbol_numbers st1 = insert k (symbol_numbers st)
           \<and> (\<exists>r. file_symbols st1 = file_symbols st @ [r] \<and> x_number r = k)))
   \<and> (\<forall>st'. numbers_unique sts \<and> doExport_symbols env m (ixs @ jxs) sts = Some (Inr st') \<longrightarrow>
         (\<exists>st1. doExport_symbols env m ixs sts = Some (Inr st1) \<and> numbers_unique st1)
         \<and> numbers_unique st')
   \<and> (\<forall>st'. numbers_unique sto \<and> doExport_objects (objects @ rest) sto = Some (Inr st') \<longrightarrow>
         (\<exists>st1. doExport_objects objects sto = Some (Inr st1) \<and> numbers_unique st1)
         \<and> numbers_unique st')
   \<and> (\<forall>st'. doExport env m = Some (Inr st') \<longrightarrow>
         distinct (map x_number (file_symbols st'))
         \<and> set (map x_number (file_symbols st')) \<subseteq> symbol_numbers st')"
proof -
  have a: "\<forall>k. unique_number numbers n = Some k \<longrightarrow> k \<notin> numbers"
    using unique_number_Some by blast
  have b: "(\<exists>k. k \<notin> numbers) \<longrightarrow> (\<exists>k. unique_number numbers n = Some k)"
    using unique_number_total by blast
  have c: "\<forall>k st1. exportSymbol env ty symbol st = Some (Inr (k, st1)) \<longrightarrow>
         k \<notin> symbol_numbers st \<and> symbol_numbers st1 = insert k (symbol_numbers st)
         \<and> (\<exists>r. file_symbols st1 = file_symbols st @ [r] \<and> x_number r = k)"
    by (intro allI impI) (rule exportSymbol_Inr)
  have d: "\<forall>k st1. doExport_text_format object it st = Some (Inr (k, st1)) \<longrightarrow>
         (map x_number (file_symbols st1) = map x_number (file_symbols st)
           \<and> symbol_numbers st1 = symbol_numbers st)
         \<or> (k \<notin> symbol_numbers st \<and> symbol_numbers st1 = insert k (symbol_numbers st)
           \<and> (\<exists>r. file_symbols st1 = file_symbols st @ [r] \<and> x_number r = k))"
    by (intro allI impI) (rule doExport_text_format_emits)
  have e: "\<forall>st'. numbers_unique sts \<and> doExport_symbols env m (ixs @ jxs) sts = Some (Inr st') \<longrightarrow>
         (\<exists>st1. doExport_symbols env m ixs sts = Some (Inr st1) \<and> numbers_unique st1)
         \<and> numbers_unique st'"
    by (intro allI impI, elim conjE) (rule doExport_symbols_prefix)
  have f: "\<forall>st'. numbers_unique sto \<and> doExport_objects (objects @ rest) sto = Some (Inr st') \<longrightarrow>
         (\<exists>st1. doExport_objects objects sto = Some (Inr st1) \<and> numbers_unique st1)
         \<and> numbers_unique st'"
    by (intro allI impI, elim conjE) (rule doExport_objects_prefix)
  have g: "\<forall>st'. doExport env m = Some (Inr st') \<longrightarrow>
         distinct (map x_number (file_symbols st'))
         \<and> set (map x_number (file_symbols st')) \<subseteq> symbol_numbers st'"
    using doExport_unique [of env m] by (simp add: numbers_unique_def)
  from a b c d e f g show ?thesis
    by (intro conjI)
qed

theorem doExport_symbol_numbers_unique_witness:
  "unique_number {10, 11} 10 = Some 12
   \<and> (12 :: 16 word) \<notin> {10, 11}
   \<and> (\<exists>st1. exportSymbol example_export_env 3 (example_symbol 0) example_exporter
              = Some (Inr (13, st1))
         \<and> 13 \<notin> symbol_numbers example_exporter
         \<and> symbol_numbers st1 = insert 13 (symbol_numbers example_exporter))
   \<and> (\<exists>st1. doExport_text_format (example_text_object AlignRight) 12 example_exporter
              = Some (Inr (12, st1))
         \<and> map x_number (file_symbols st1) = map x_number (file_symbols example_exporter))
   \<and> numbers_unique Exporter_new
   \<and> (\<exists>st1. doExport_symbols example_export_env example_map [0, 1] Exporter_new = Some (Inr st1)
         \<and> numbers_unique st1)
   \<and> doExport_symbols example_export_env example_map ([0, 1] @ [2]) Exporter_new
        = Some (Inr example_exporter)
   \<and> numbers_unique example_exporter
   \<and> (\<exists>st1 st'. doExport_objects [example_text_object AlignLeft] example_exporter
                  = Some (Inr st1)
         \<and> numbers_unique st1
         \<and> doExport_objects ([example_text_object AlignLeft]
               @ [example_text_object AlignRight, example_text_object AlignLeft])
               example_exporter = Some (Inr st')
         \<and> numbers_unique st'
         \<and> map x_number (file_symbols st') = [10, 11, 12, 13])
   \<and> (\<exists>st'. doExport example_export_env example_map = Some (Inr st')
         \<and> distinct (map x_number (file_symbols st'))
         \<and> map x_number (file_symbols st') = [10, 11, 12, 13])"
proof -
  note T = doExport_symbol_numbers_unique [where numbers = "{10, 11}" and n = 10
      and env = example_export_env and ty = 3 and symbol = "example_symbol 0"
      and st = example_exporter and object = "example_text_object AlignRight" and it = 12
      and sts = Exporter_new and m = example_map and ixs = "[0, 1]" and jxs = "[2]"
      and sto = example_exporter and objects = "[example_text_object AlignLeft]"
      and rest = "[example_text_object AlignRight, example_text_object AlignLeft]"]
  have c1: "unique_number {10, 11} 10 = Some (12 :: 16 word)"
    by code_simp
  have c2: "case doExport_symbols example_export_env example_map [0, 1, 2] Exporter_new of
      Some (Inr st) \<Rightarrow> True | _ \<Rightarrow> False"
    by code_simp
  have c3: "case exportSymbol example_export_env 3 (example_symbol 0) example_exporter of
      Some (Inr (k, st1)) \<Rightarrow> k = 13 | _ \<Rightarrow> False"
    by code_simp
  have c4: "case doExport_text_format (example_text_object AlignRight) 12 example_exporter of
      Some (Inr (k, st1)) \<Rightarrow> k = 12 | _ \<Rightarrow> False"
    by code_simp
  have c5: "12 \<in> symbol_numbers example_exporter"
    by code_simp
  have c6: "case doExport_objects [example_text_object AlignLeft, example_text_object AlignRight,
        example_text_object AlignLeft] example_exporter of
      Some (Inr st) \<Rightarrow> map x_number (file_symbols st) = [10, 11, 12, 13] | _ \<Rightarrow> False"
    by code_simp
  have c7: "case doExport example_export_env example_map of
      Some (Inr st) \<Rightarrow> map x_number (file_symbols st) = [10, 11, 12, 13] | _ \<Rightarrow> False"
    by code_simp
  have u0: "numbers_unique Exporter_new"
    by (simp add: numbers_unique_def Exporter_new_def)
  note Ta = T [THEN conjunct1, rule_format]
  note Tc = T [THEN conjunct2, THEN conjunct2, THEN conjunct1, rule_format]
  note Td = T [THEN conjunct2, THEN conjunct2, THEN conjunct2, THEN conjunct1, rule_format]
  note Te = T [THEN conjunct2, THEN conjunct2, THEN conjunct2, THEN conjunct2, THEN conjunct1,
      rule_format]
  note Tf = T [THEN conjunct2, THEN conjunct2, THEN conjunct2, THEN conjunct2, THEN conjunct2,
      THEN conjunct1, rule_format]
  note Tg = T [THEN conjunct2, THEN conjunct2, THEN conjunct2, THEN conjunct2, THEN conjunct2,
      THEN conjunct2, rule_format]
  from Ta [OF c1] have p1: "(12 :: 16 word) \<notin> {10, 11}" .
  from c2 obtain s where s: "doExport_symbols example_export_env example_map [0, 1, 2]
      Exporter_new = Some (Inr s)"
    by (auto split: option.splits sum.splits)
  then have ex: "example_exporter = s"
    by (simp add: example_exporter_def)
  from s ex have p2: "doExport_symbols example_export_env example_map ([0, 1] @ [2]) Exporter_new
      = Some (Inr example_exporter)"
    by simp
  from Te [OF conjI [OF u0 p2]]
  have p3: "\<exists>st1. doExport_symbols example_export_env example_map [0, 1]
        Exporter_new = Some (Inr st1) \<and> numbers_unique st1"
    and p3': "numbers_unique example_exporter"
    by simp_all
  from c3 obtain st1 where
    e: "exportSymbol example_export_env 3 (example_symbol 0) example_exporter
          = Some (Inr (13, st1))"
    by (auto split: option.splits sum.splits prod.splits)
  from Tc [OF e] have p4: "\<exists>st1. exportSymbol example_export_env 3 (example_symbol 0)
          example_exporter = Some (Inr (13, st1))
        \<and> 13 \<notin> symbol_numbers example_exporter
        \<and> symbol_numbers st1 = insert 13 (symbol_numbers example_exporter)"
    using e by (intro exI [of _ st1]) simp
  from c4 obtain st2 where
    f: "doExport_text_format (example_text_object AlignRight) 12 example_exporter
          = Some (Inr (12, st2))"
    by (auto split: option.splits sum.splits prod.splits)
  from Td [OF f] c5 have "map x_number (file_symbols st2)
      = map x_number (file_symbols example_exporter)"
    by simp
  with f have p5: "\<exists>st1. doExport_text_format (example_text_object AlignRight) 12
          example_exporter = Some (Inr (12, st1))
        \<and> map x_number (file_symbols st1) = map x_number (file_symbols example_exporter)"
    by (intro exI [of _ st2]) simp
  from c6 obtain st3 where
    o: "doExport_objects ([example_text_object AlignLeft]
          @ [example_text_object AlignRight, example_text_object AlignLeft]) example_exporter
        = Some (Inr st3)"
    and n: "map x_number (file_symbols st3) = [10, 11, 12, 13]"
    by (auto split: option.splits sum.splits)
  from Tf [OF conjI [OF p3' o]] obtain st5 where
    o5: "doExport_objects [example_text_object AlignLeft] example_exporter = Some (Inr st5)"
    and u5: "numbers_unique st5" and u3: "numbers_unique st3"
    by auto
  from o5 u5 o u3 n have p6: "\<exists>st1 st'. doExport_objects [example_text_object AlignLeft]
          example_exporter = Some (Inr st1)
        \<and> numbers_unique st1
        \<and> doExport_objects ([example_text_object AlignLeft]
               @ [example_text_object AlignRight, example_text_object AlignLeft])
               example_exporter = Some (Inr st')
        \<and> numbers_unique st'
        \<and> map x_number (file_symbols st') = [10, 11, 12, 13]"
    by (intro exI [of _ st5] exI [of _ st3]) simp
  from c7 obtain st4 where
    d: "doExport example_export_env example_map = Some (Inr st4)"
    and n4: "map x_number (file_symbols st4) = [10, 11, 12, 13]"
    by (auto split: option.splits sum.splits)
  from Tg [OF d] have "distinct (map x_number (file_symbols st4))"
    by simp
  with d n4 have p7: "\<exists>st'. doExport example_export_env example_map = Some (Inr st')
        \<and> distinct (map x_number (file_symbols st'))
        \<and> map x_number (file_symbols st') = [10, 11, 12, 13]"
    by (intro exI [of _ st4]) simp
  show ?thesis
    by (intro conjI) (fact c1 p1 p4 p5 u0 p3 p2 p3' p6 p7)+
qed

end
